theory Spec2Isabelle
  imports Complex_Main "HOL-Library.AList" "HOL-Library.Sublist"
begin

section \<open>Conventions of the embedding\<close>

text \<open>
  The services of the repository are Python classes. Each is modelled as a record of its
  instance fields; a method takes the record as its first argument (Python's \<open>self\<close>)
  and, where it mutates a field, returns the updated record next to its result.

  \<^item> A Python \<open>dict\<close> is an association list in insertion order: \<open>d.get(k)\<close> is
    \<^term>\<open>map_of d k\<close>, \<open>d[k] = v\<close> is \<^term>\<open>AList.update k v d\<close> (an existing key keeps
    its place, a new key goes last), \<open>len(d)\<close> is the length of the list.
  \<^item> Python numbers (\<open>int\<close> and \<open>float\<close> mixed by \<open>/\<close> and \<open>*\<close>) are \<^typ>\<open>real\<close>:
    the arithmetic is exact, the rounding of IEEE doubles is not modelled. List indices
    and counters are \<^typ>\<open>int\<close> and \<^typ>\<open>nat\<close>.
  \<^item> A raised exception is the left injection of a sum.
  \<^item> A leading underscore of a Python name is dropped (\<open>_analyze_intent\<close> is
    \<open>analyze_intent\<close>); a name that clashes with a constant of HOL gets a suffix.
\<close>

datatype py_exception =
    IndexError
  | ZeroDivisionError
  | ValueError string
  | OverflowError
  | ConnectionError string
  | FeedException string

text \<open>Python's \<open>xs[i]\<close>: a negative index counts from the end, an index out of range raises.\<close>

definition py_index :: "'a list \<Rightarrow> int \<Rightarrow> py_exception + 'a" where
  "py_index xs i =
     (if 0 \<le> i \<and> i < int (length xs) then Inr (xs ! nat i)
      else if i < 0 \<and> - int (length xs) \<le> i then Inr (xs ! nat (int (length xs) + i))
      else Inl IndexError)"

section \<open>Training service (\<open>app/services/training_service.py\<close>)\<close>

subsection \<open>Data\<close>

text \<open>
  The catalog is a dict of modules, each with a list of lessons, each with a quiz. The
  fields \<open>title\<close>, \<open>description\<close> and \<open>content\<close> are display text that neither
  \<open>get_lesson\<close>, \<open>submit_quiz\<close> nor \<open>get_user_progress\<close> reads; they are left out.
  \<open>quiz\<close> is optional because \<open>submit_quiz\<close> reads it with \<open>lesson.get("quiz", [])\<close>.
\<close>

record quiz_question =
  question :: string
  options :: "string list"
  correct :: int
  explanation :: string

record lesson =
  lesson_id :: string
  quiz :: "quiz_question list option"

record training_module =
  lessons :: "lesson list"

record attempt =
  score :: real
  completed :: bool

type_synonym progress = "(string \<times> attempt) list"

record training_service =
  modules :: "(string \<times> training_module) list"
  user_progress :: "(string \<times> progress) list"

record answer_result =
  r_question :: string
  your_answer :: string
  correct_answer :: string
  is_correct :: bool
  r_explanation :: string

record quiz_result =
  q_score :: real
  q_correct :: nat
  q_total :: nat
  q_results :: "answer_result list"
  passed :: bool

text \<open>\<open>submit_quiz\<close> returns either \<open>{"error": msg}\<close> or the result dict.\<close>

datatype quiz_response = Error string | QuizResult quiz_result

subsection \<open>The catalog of \<open>_initialize_modules\<close>\<close>

definition gpu_1_quiz :: "quiz_question list" where
  "gpu_1_quiz =
    [\<lparr>question = ''Why are GPUs better than CPUs for AI training?'',
      options = [''Higher clock speed'', ''Massive parallelism for matrix operations'',
                 ''Lower power consumption'', ''Simpler programming model''],
      correct = 1,
      explanation = ''GPUs have thousands of cores optimized for parallel matrix operations, which are fundamental to neural network computations.''\<rparr>,
     \<lparr>question = ''What does TFLOPS measure?'',
      options = [''Memory capacity'', ''Power consumption'',
                 ''Floating-point operations per second'', ''Data transfer speed''],
      correct = 2,
      explanation = ''TFLOPS (Trillion FLOPS) measures computational throughput - how many floating-point operations the GPU can perform per second.''\<rparr>]"

definition gpu_2_quiz :: "quiz_question list" where
  "gpu_2_quiz =
    [\<lparr>question = ''Which architecture introduced the Transformer Engine?'',
      options = [''Ampere'', ''Hopper'', ''Blackwell'', ''Volta''],
      correct = 1,
      explanation = ''The Transformer Engine was introduced with the Hopper architecture (H100), providing optimized performance for transformer-based models.''\<rparr>]"

text \<open>
  The second explanation of \<open>tco_1\<close> holds a multiplication sign (U+00D7); a
  \<^typ>\<open>string\<close> is a list of bytes, so it stands as its two UTF-8 bytes.
\<close>

definition tco_1_quiz :: "quiz_question list" where
  "tco_1_quiz =
    [\<lparr>question = ''What does PUE stand for?'',
      options = [''Power Unit Efficiency'', ''Power Usage Effectiveness'',
                 ''Processing Unit Energy'', ''Parallel Utilization Efficiency''],
      correct = 1,
      explanation = ''PUE (Power Usage Effectiveness) measures datacenter efficiency - total facility power divided by IT equipment power. A PUE of 1.3 means 30% overhead.''\<rparr>,
     \<lparr>question = ''If an H100 has 700W TDP and runs 24/7, what's the annual kWh consumption?'',
      options = [''5,000 kWh'', ''6,132 kWh'', ''8,760 kWh'', ''10,000 kWh''],
      correct = 1,
      explanation = ''700W '' @ [CHR 0xC3, CHR 0x97] @ '' 8,760 hours = 6,132 kWh per year (not including PUE overhead)''\<rparr>]"

definition tco_2_quiz :: "quiz_question list" where
  "tco_2_quiz =
    [\<lparr>question = ''At what utilization rate does on-premise typically become more cost-effective?'',
      options = [''20-30%'', ''40-50%'', ''70%+'', ''90%+''],
      correct = 2,
      explanation = ''Generally, on-premise infrastructure becomes more cost-effective above 70% utilization, when the fixed costs are spread across substantial usage.''\<rparr>]"

definition neo_1_quiz :: "quiz_question list" where
  "neo_1_quiz =
    [\<lparr>question = ''What differentiates neoclouds from hyperscalers?'',
      options = [''Lower prices'', ''GPU/AI infrastructure specialization'',
                 ''More datacenters'', ''Better customer support''],
      correct = 1,
      explanation = ''Neoclouds specialize in GPU/AI infrastructure, offering purpose-built solutions rather than general-purpose cloud services.''\<rparr>]"

definition bbg_1_quiz :: "quiz_question list" where
  "bbg_1_quiz =
    [\<lparr>question = ''What port does Bloomberg Desktop API use?'',
      options = [''8080'', ''8194'', ''443'', ''3000''],
      correct = 1,
      explanation = ''Bloomberg Desktop API listens on port 8194 by default.''\<rparr>]"

definition initialize_modules :: "(string \<times> training_module) list" where
  "initialize_modules =
    [(''gpu_fundamentals'',
        \<lparr>lessons = [\<lparr>lesson_id = ''gpu_1'', quiz = Some gpu_1_quiz\<rparr>,
                    \<lparr>lesson_id = ''gpu_2'', quiz = Some gpu_2_quiz\<rparr>]\<rparr>),
     (''tco_modeling'',
        \<lparr>lessons = [\<lparr>lesson_id = ''tco_1'', quiz = Some tco_1_quiz\<rparr>,
                    \<lparr>lesson_id = ''tco_2'', quiz = Some tco_2_quiz\<rparr>]\<rparr>),
     (''neocloud_economics'',
        \<lparr>lessons = [\<lparr>lesson_id = ''neo_1'', quiz = Some neo_1_quiz\<rparr>]\<rparr>),
     (''bloomberg_integration'',
        \<lparr>lessons = [\<lparr>lesson_id = ''bbg_1'', quiz = Some bbg_1_quiz\<rparr>]\<rparr>)]"

text \<open>\<open>__init__\<close>: the catalog and an empty progress dict.\<close>

definition training_init :: training_service where
  "training_init = \<lparr>modules = initialize_modules, user_progress = []\<rparr>"

subsection \<open>Operations\<close>

definition get_module :: "training_service \<Rightarrow> string \<Rightarrow> training_module option" where
  "get_module self module_id = map_of (modules self) module_id"

text \<open>
  \<open>get_lesson\<close>: \<open>None\<close> when the module is absent, else the first lesson of the module
  with the given id, else \<open>None\<close>.
\<close>

definition get_lesson :: "training_service \<Rightarrow> string \<Rightarrow> string \<Rightarrow> lesson option" where
  "get_lesson self module_id lid =
     (case map_of (modules self) module_id of
        None \<Rightarrow> None
      | Some m \<Rightarrow> find (\<lambda>l. lesson_id l = lid) (lessons m))"

text \<open>
  The loop of \<open>submit_quiz\<close> over \<open>zip(answers, quiz)\<close>, with its two accumulators.
  \<open>question["options"][question["correct"]]\<close> is a plain index, so it can raise.
\<close>

fun grade :: "(int \<times> quiz_question) list \<Rightarrow> answer_result list \<Rightarrow> nat
    \<Rightarrow> py_exception + (answer_result list \<times> nat)" where
  "grade [] results correct_count = Inr (results, correct_count)"
| "grade ((answer, q) # rest) results correct_count =
     (let ok = (answer = correct q);
          correct_count' = (if ok then correct_count + 1 else correct_count)
      in case py_index (options q) (correct q) of
           Inl e \<Rightarrow> Inl e
         | Inr ca \<Rightarrow>
             grade rest
               (results @
                 [\<lparr>r_question = question q,
                   your_answer =
                     (if 0 \<le> answer \<and> answer < int (length (options q))
                      then options q ! nat answer else ''Invalid''),
                   correct_answer = ca,
                   is_correct = ok,
                   r_explanation = explanation q\<rparr>])
               correct_count')"

text \<open>The key of a progress entry: \<open>f"{module_id}_{lesson_id}"\<close>.\<close>

definition progress_key :: "string \<Rightarrow> string \<Rightarrow> string" where
  "progress_key module_id lid = module_id @ ''_'' @ lid"

text \<open>
  The two assignments that record an attempt: an absent user first gets an empty dict,
  then the entry is written under the key in the user's dict. The second lookup cannot
  miss; its \<open>None\<close> case only makes the definition total.
\<close>

definition record_attempt ::
    "(string \<times> progress) list \<Rightarrow> string \<Rightarrow> string \<Rightarrow> attempt \<Rightarrow> (string \<times> progress) list" where
  "record_attempt up user_id key a =
     (let up' = (case map_of up user_id of None \<Rightarrow> AList.update user_id [] up | Some _ \<Rightarrow> up)
      in case map_of up' user_id of
           None \<Rightarrow> up'
         | Some p \<Rightarrow> AList.update user_id (AList.update key a p) up')"

definition submit_quiz ::
    "training_service \<Rightarrow> string \<Rightarrow> string \<Rightarrow> int list \<Rightarrow> string
      \<Rightarrow> (py_exception + quiz_response) \<times> training_service" where
  "submit_quiz self module_id lid answers user_id =
     (case get_lesson self module_id lid of
        None \<Rightarrow> (Inr (Error ''Lesson not found''), self)
      | Some l \<Rightarrow>
          (let qz = (case quiz l of None \<Rightarrow> [] | Some q \<Rightarrow> q)
           in if length answers \<noteq> length qz
              then (Inr (Error ''Answer count mismatch''), self)
              else
                (case grade (zip answers qz) [] 0 of
                   Inl e \<Rightarrow> (Inl e, self)
                 | Inr (results, correct_count) \<Rightarrow>
                     (let sc = (if qz \<noteq> [] then (real correct_count / real (length qz)) * 100
                                else 0)
                      in (Inr (QuizResult
                                \<lparr>q_score = sc, q_correct = correct_count,
                                  q_total = length qz, q_results = results,
                                  passed = (sc \<ge> 70)\<rparr>),
                          self\<lparr>user_progress :=
                                 record_attempt (user_progress self) user_id
                                   (progress_key module_id lid)
                                   \<lparr>score = sc, completed = True\<rparr>\<rparr>)))))"

record progress_report =
  p_user_id :: string
  completed_lessons :: nat
  total_lessons :: nat
  completion_percent :: real
  average_score :: real
  lesson_details :: progress

definition get_user_progress :: "training_service \<Rightarrow> string \<Rightarrow> progress_report" where
  "get_user_progress self user_id =
     (let prog = (case map_of (user_progress self) user_id of None \<Rightarrow> [] | Some p \<Rightarrow> p);
          total = sum_list (map (\<lambda>(_, m). length (lessons m)) (modules self));
          done = length prog;
          avg = (if prog \<noteq> [] then sum_list (map (\<lambda>(_, p). score p) prog) / real (length prog)
                 else 0)
      in \<lparr>p_user_id = user_id,
          completed_lessons = done,
          total_lessons = total,
          completion_percent = (if total \<noteq> 0 then (real done / real total) * 100 else 0),
          average_score = avg,
          lesson_details = prog\<rparr>)"

subsection \<open>Vocabulary of the statements\<close>

definition question_ok :: "quiz_question \<Rightarrow> bool" where
  "question_ok q = (0 \<le> correct q \<and> correct q < int (length (options q)))"

definition lesson_quiz :: "lesson \<Rightarrow> quiz_question list" where
  "lesson_quiz l = (case quiz l of None \<Rightarrow> [] | Some q \<Rightarrow> q)"

definition lesson_ok :: "lesson \<Rightarrow> bool" where
  "lesson_ok l = list_all question_ok (lesson_quiz l)"

definition catalog_ok :: "(string \<times> training_module) list \<Rightarrow> bool" where
  "catalog_ok ms = list_all (\<lambda>(_, m). list_all lesson_ok (lessons m)) ms"

definition graded_entry :: "int \<times> quiz_question \<Rightarrow> answer_result" where
  "graded_entry p =
     (case p of (answer, q) \<Rightarrow>
       \<lparr>r_question = question q,
        your_answer = (if 0 \<le> answer \<and> answer < int (length (options q))
                       then options q ! nat answer else ''Invalid''),
        correct_answer = options q ! nat (correct q),
        is_correct = (answer = correct q),
        r_explanation = explanation q\<rparr>)"

definition count_correct :: "int list \<Rightarrow> quiz_question list \<Rightarrow> nat" where
  "count_correct answers qz = length (filter (\<lambda>(a, q). a = correct q) (zip answers qz))"

definition progress_of :: "training_service \<Rightarrow> string \<Rightarrow> progress" where
  "progress_of self user_id = (case map_of (user_progress self) user_id of None \<Rightarrow> [] | Some p \<Rightarrow> p)"

definition stored_attempts :: "training_service \<Rightarrow> string \<Rightarrow> string \<Rightarrow> string \<Rightarrow> attempt list" where
  "stored_attempts self user_id module_id lid =
     map snd (filter (\<lambda>e. fst e = progress_key module_id lid) (progress_of self user_id))"

definition progress_ok :: "(string \<times> progress) list \<Rightarrow> bool" where
  "progress_ok up = (distinct (map fst up) \<and> list_all (\<lambda>(_, p). distinct (map fst p)) up)"

section \<open>AI agent service (\<open>app/services/ai_service.py\<close>)\<close>

subsection \<open>Knowledge base\<close>

record gpu_spec =
  manufacturer :: string
  process :: string
  memory :: string
  tdp :: real
  fp16_tflops :: real
  price_estimate :: real

record tco_assumptions =
  power_cost_kwh :: real
  pue :: real
  cooling_overhead :: real
  maintenance_percent :: real
  depreciation_years :: real
  utilization_target :: real

record neocloud_provider =
  focus :: string
  gpu_types :: "string list"

record knowledge =
  gpu_architectures :: "(string \<times> gpu_spec) list"
  tco_factors :: tco_assumptions
  neocloud_providers :: "(string \<times> neocloud_provider) list"

definition load_knowledge_base :: knowledge where
  "load_knowledge_base =
    \<lparr>gpu_architectures =
       [(''H100'', \<lparr>manufacturer = ''NVIDIA'', process = ''4nm'', memory = ''80GB HBM3'',
                    tdp = 700, fp16_tflops = 1979, price_estimate = 30000\<rparr>),
        (''H200'', \<lparr>manufacturer = ''NVIDIA'', process = ''4nm'', memory = ''141GB HBM3e'',
                    tdp = 700, fp16_tflops = 1979, price_estimate = 40000\<rparr>),
        (''MI300X'', \<lparr>manufacturer = ''AMD'', process = ''5nm'', memory = ''192GB HBM3'',
                    tdp = 750, fp16_tflops = 1307, price_estimate = 15000\<rparr>),
        (''B200'', \<lparr>manufacturer = ''NVIDIA'', process = ''4nm'', memory = ''192GB HBM3e'',
                    tdp = 1000, fp16_tflops = 4500, price_estimate = 40000\<rparr>)],
     tco_factors =
       \<lparr>power_cost_kwh = 0.08, pue = 1.3, cooling_overhead = 0.15,
        maintenance_percent = 0.08, depreciation_years = 3, utilization_target = 0.85\<rparr>,
     neocloud_providers =
       [(''CoreWeave'', \<lparr>focus = ''GPU cloud'', gpu_types = [''H100'', ''A100'']\<rparr>),
        (''Lambda Labs'', \<lparr>focus = ''ML cloud'', gpu_types = [''H100'', ''A100'']\<rparr>),
        (''Together AI'', \<lparr>focus = ''Inference'', gpu_types = [''H100'']\<rparr>),
        (''Crusoe'', \<lparr>focus = ''Clean energy'', gpu_types = [''H100'', ''A100'']\<rparr>)]\<rparr>"

record ai_agent_service =
  api_key :: string
  model :: string
  knowledge_base :: knowledge

text \<open>\<open>__init__\<close>, with its default arguments.\<close>

definition ai_agent_init :: "string \<Rightarrow> string \<Rightarrow> ai_agent_service" where
  "ai_agent_init key m = \<lparr>api_key = key, model = m, knowledge_base = load_knowledge_base\<rparr>"

subsection \<open>Intent classifier\<close>

text \<open>
  \<open>str.lower()\<close> on the bytes of the message: an ASCII capital becomes its small letter,
  every other byte stays. (Python also lowers letters outside ASCII; messages are taken
  as ASCII here.)
\<close>

definition lower_char :: "char \<Rightarrow> char" where
  "lower_char c =
     (if 65 \<le> (of_char c :: nat) \<and> (of_char c :: nat) \<le> 90
      then char_of ((of_char c :: nat) + 32) else c)"

definition lower :: "string \<Rightarrow> string" where
  "lower s = map lower_char s"

text \<open>Python's \<open>word in text\<close> on strings: \<open>word\<close> occurs in \<open>text\<close> as a substring.\<close>

fun py_in :: "string \<Rightarrow> string \<Rightarrow> bool" where
  "py_in word [] = (word = [])"
| "py_in word (c # cs) = (prefix word (c # cs) \<or> py_in word cs)"

definition tco_words :: "string list" where
  "tco_words = [''tco'', ''cost'', ''expense'', ''budget'', ''pricing'']"

definition comparison_words :: "string list" where
  "comparison_words = [''compare'', ''vs'', ''versus'', ''difference'', ''better'']"

definition market_words :: "string list" where
  "market_words = [''market'', ''stock'', ''price'', ''bloomberg'', ''equity'']"

definition neocloud_words :: "string list" where
  "neocloud_words = [''neocloud'', ''coreweave'', ''lambda'', ''together'', ''cloud provider'']"

definition analyze_intent :: "string \<Rightarrow> string" where
  "analyze_intent message =
     (let message_lower = lower message
      in if list_ex (\<lambda>word. py_in word message_lower) tco_words then ''tco_calculation''
         else if list_ex (\<lambda>word. py_in word message_lower) comparison_words
           then ''gpu_comparison''
         else if list_ex (\<lambda>word. py_in word message_lower) market_words then ''market_data''
         else if list_ex (\<lambda>word. py_in word message_lower) neocloud_words
           then ''neocloud_analysis''
         else ''general'')"

subsection \<open>Chat responder\<close>

text \<open>
  A response text is built by f-strings. It is kept as the list of its pieces: literal
  text, and a number together with its format specification (\<open>,.0f\<close>, \<open>.2f\<close>, \<open>,\<close>, or
  none). Python's conversion of a double to its digits is not modelled; two responses
  with equal pieces render to equal strings.
\<close>

datatype fragment = Lit string | Fmt string real

record tco_data =
  d_capex :: real
  d_annual_power :: real
  d_annual_maintenance :: real
  d_total_tco :: real
  d_cost_per_gpu_hour :: real

record comparison_row =
  c_name :: string
  c_memory :: string
  c_tdp :: real
  c_fp16_tflops :: real
  c_price :: real
  perf_per_dollar :: real

datatype chat_data =
    TcoData tco_data
  | ComparisonData "comparison_row list"
  | MarketData "string list" "string list"
  | NeocloudData "(string \<times> neocloud_provider) list"
  | EmptyData

record chat_response =
  response :: "fragment list"
  data :: chat_data
  intent :: string

definition handle_tco_query ::
    "ai_agent_service \<Rightarrow> string \<Rightarrow> py_exception + chat_response" where
  "handle_tco_query self message =
     (let factors = tco_factors (knowledge_base self);
          gpu_price = 30000;
          num_gpus = 8;
          hours_per_year = 8760;
          capex = gpu_price * num_gpus;
          power_cost = (700 * num_gpus * hours_per_year * pue factors / 1000) * power_cost_kwh factors;
          maintenance = capex * maintenance_percent factors;
          total_tco = capex + (power_cost + maintenance) * depreciation_years factors;
          tco_per_gpu_hour = total_tco / (num_gpus * hours_per_year * depreciation_years factors)
      in if num_gpus * hours_per_year * depreciation_years factors = 0
         then Inl ZeroDivisionError
         else Inr \<lparr>response =
            [Lit (''Based on our TCO model, here'' @ [CHR 0x27] @ ''s a breakdown for an 8x H100 cluster:\<newline>\<newline>**Capital Expenditure:** $''),
             Fmt '',.0f'' capex,
             Lit ''\<newline>**Annual Power Cost:** $'',
             Fmt '',.0f'' power_cost,
             Lit '' (at $'',
             Fmt [] (power_cost_kwh factors),
             Lit ''/kWh, PUE '',
             Fmt [] (pue factors),
             Lit '')\<newline>**Annual Maintenance:** $'',
             Fmt '',.0f'' maintenance,
             Lit '' ('',
             Fmt [] (maintenance_percent factors * 100),
             Lit ''% of CAPEX)\<newline>\<newline>**3-Year Total TCO:** $'',
             Fmt '',.0f'' total_tco,
             Lit ''\<newline>**Cost per GPU-Hour:** $'',
             Fmt ''.2f'' tco_per_gpu_hour,
             Lit ''\<newline>\<newline>Key assumptions:\<newline>- '',
             Fmt [] (depreciation_years factors),
             Lit ''-year depreciation\<newline>- '',
             Fmt [] (utilization_target factors * 100),
             Lit ''% utilization target\<newline>- 700W TDP per H100\<newline>\<newline>Want me to adjust any parameters for a custom scenario?''],
          data = TcoData \<lparr>d_capex = capex, d_annual_power = power_cost,
                           d_annual_maintenance = maintenance, d_total_tco = total_tco,
                           d_cost_per_gpu_hour = tco_per_gpu_hour\<rparr>,
          intent = ''tco_calculation''\<rparr>)"

text \<open>
  \<open>round(x, 2)\<close>, in exact arithmetic: to the nearest hundredth, a tie to the even one.
\<close>

definition round_half_even :: "real \<Rightarrow> int" where
  "round_half_even x =
     (let f = \<lfloor>x\<rfloor>; d = x - of_int f
      in if d < 1 / 2 then f else if d > 1 / 2 then f + 1 else if even f then f else f + 1)"

definition py_round2 :: "real \<Rightarrow> real" where
  "py_round2 x = of_int (round_half_even (x * 100)) / 100"

definition comparison_entry :: "string \<times> gpu_spec \<Rightarrow> comparison_row" where
  "comparison_entry e =
     (case e of (name, specs) \<Rightarrow>
        \<lparr>c_name = name, c_memory = memory specs, c_tdp = tdp specs,
         c_fp16_tflops = fp16_tflops specs, c_price = price_estimate specs,
         perf_per_dollar = py_round2 (fp16_tflops specs / (price_estimate specs / 1000))\<rparr>)"

definition comparison_line :: "comparison_row \<Rightarrow> fragment list" where
  "comparison_line gpu =
     [Lit ''| '', Lit (c_name gpu), Lit '' | '', Lit (c_memory gpu), Lit '' | '',
      Fmt [] (c_tdp gpu), Lit ''W | '', Fmt [] (c_fp16_tflops gpu), Lit '' | $'',
      Fmt '','' (c_price gpu), Lit '' | '', Fmt [] (perf_per_dollar gpu), Lit '' |\<newline>'']"

text \<open>
  \<open>list.sort(key, reverse=True)\<close> is stable: rows with equal keys keep their order. So
  is the insertion sort \<^const>\<open>sort_key\<close> on the negated key. \<open>price_estimate / 1000\<close>
  raises for a price of 0.
\<close>

definition handle_gpu_comparison ::
    "ai_agent_service \<Rightarrow> string \<Rightarrow> py_exception + chat_response" where
  "handle_gpu_comparison self message =
     (let gpus = gpu_architectures (knowledge_base self)
      in if list_ex (\<lambda>(name, specs). price_estimate specs / 1000 = 0) gpus
         then Inl ZeroDivisionError
         else
           (let comparison_table =
                  sort_key (\<lambda>x. - perf_per_dollar x) (map comparison_entry gpus)
            in Inr \<lparr>response =
                      [Lit ''**GPU Comparison for AI Training:**\<newline>\<newline>'',
                       Lit ''| GPU | Memory | TDP | FP16 TFLOPS | Est. Price | Perf/$ |\<newline>'',
                       Lit ''|-----|--------|-----|-------------|------------|--------|\<newline>'']
                      @ concat (map comparison_line comparison_table)
                      @ [Lit ''\<newline>*Performance per dollar = FP16 TFLOPS per $1000*''],
                    data = ComparisonData comparison_table,
                    intent = ''gpu_comparison''\<rparr>))"

definition handle_market_query :: "ai_agent_service \<Rightarrow> string \<Rightarrow> chat_response" where
  "handle_market_query self message =
     \<lparr>response =
        [Lit ''For real-time market data, please ensure Bloomberg Terminal integration is configured.\<newline>\<newline>You can access:\<newline>- **GPU Companies:** NVDA, AMD, INTC, TSM, AVGO\<newline>- **Datacenter REITs:** EQIX, DLR, AMT, CCI\<newline>\<newline>Use the Bloomberg API endpoints to fetch current prices, market caps, and financial metrics.\<newline>\<newline>Would you like me to explain how to set up the Bloomberg connection?''],
      data = MarketData [''NVDA'', ''AMD'', ''INTC'', ''TSM'', ''AVGO'']
                        [''EQIX'', ''DLR'', ''AMT'', ''CCI''],
      intent = ''market_data''\<rparr>"

text \<open>\<open>sep.join(xs)\<close>.\<close>

fun join :: "string \<Rightarrow> string list \<Rightarrow> string" where
  "join sep [] = []"
| "join sep [x] = x"
| "join sep (x # y # ys) = x @ sep @ join sep (y # ys)"

definition provider_lines :: "string \<times> neocloud_provider \<Rightarrow> fragment list" where
  "provider_lines e =
     (case e of (name, info) \<Rightarrow>
        [Lit ''**'', Lit name, Lit ''**\<newline>'',
         Lit ''- Focus: '', Lit (focus info), Lit ''\<newline>'',
         Lit ''- Available GPUs: '', Lit (join '', '' (gpu_types info)), Lit ''\<newline>\<newline>''])"

definition handle_neocloud_query :: "ai_agent_service \<Rightarrow> string \<Rightarrow> chat_response" where
  "handle_neocloud_query self message =
     (let providers = neocloud_providers (knowledge_base self)
      in \<lparr>response =
            [Lit ''**Neocloud Provider Overview:**\<newline>\<newline>'']
            @ concat (map provider_lines providers)
            @ [Lit ''\<newline>**Key Differentiators:**\<newline>- CoreWeave: Kubernetes-native, competitive pricing\<newline>- Lambda Labs: Developer-focused, simple API\<newline>- Together AI: Optimized for inference workloads\<newline>- Crusoe: Sustainable energy focus\<newline>\<newline>Would you like a detailed pricing comparison or availability analysis?''],
          data = NeocloudData providers,
          intent = ''neocloud_analysis''\<rparr>)"

definition handle_general_query :: "ai_agent_service \<Rightarrow> string \<Rightarrow> chat_response" where
  "handle_general_query self message =
     \<lparr>response =
        [Lit ''I can help you with:\<newline>\<newline>1. **TCO Calculations** - Calculate total cost of ownership for GPU clusters\<newline>2. **GPU Comparisons** - Compare H100, H200, MI300X, B200 specifications\<newline>3. **Market Data** - Access Bloomberg data for GPU and datacenter stocks\<newline>4. **Neocloud Analysis** - Analyze cloud GPU providers\<newline>\<newline>What would you like to explore?''],
      data = EmptyData,
      intent = ''general''\<rparr>"

text \<open>
  \<open>chat(message, context=None)\<close>. A turn of the context is a dict of strings; the
  argument is optional.
\<close>

type_synonym chat_context = "(string \<times> string) list list option"

definition chat ::
    "ai_agent_service \<Rightarrow> string \<Rightarrow> chat_context \<Rightarrow> py_exception + chat_response" where
  "chat self message context =
     (let intent = analyze_intent message
      in if intent = ''tco_calculation'' then handle_tco_query self message
         else if intent = ''gpu_comparison'' then handle_gpu_comparison self message
         else if intent = ''market_data'' then Inr (handle_market_query self message)
         else if intent = ''neocloud_analysis'' then Inr (handle_neocloud_query self message)
         else Inr (handle_general_query self message))"

subsection \<open>Scenarios\<close>



record tco_result =
  t_gpu_type :: string
  t_num_gpus :: real
  capex :: real
  annual_power :: real
  annual_maintenance :: real
  total_tco :: real
  tco_per_gpu_hour :: real







subsection \<open>Vocabulary of the statements: the classifier the spec describes\<close>





section \<open>Market data service (\<open>app/services/bloomberg_service.py\<close>)\<close>

subsection \<open>The service and what lies outside the repository\<close>

text \<open>
  \<open>_connected\<close> and \<open>_blpapi_available\<close> are the two flags of the service; \<open>has_session\<close>
  says whether \<open>self.session\<close> holds a session object.
\<close>

record bloomberg_service =
  host :: string
  port :: int
  has_session :: bool
  connected :: bool
  blpapi_available :: bool

text \<open>
  \<open>__init__\<close>: whether \<open>import blpapi\<close> succeeds is a fact of the installation, so it is
  an argument.
\<close>

definition bloomberg_init :: "string \<Rightarrow> int \<Rightarrow> bool \<Rightarrow> bloomberg_service" where
  "bloomberg_init h p available =
     \<lparr>host = h, port = p, has_session = False, connected = False,
      blpapi_available = available\<rparr>"

text \<open>
  The \<open>blpapi\<close> library is not part of the repository. What its calls answer is a
  parameter of the model: a call returns a value or raises (\<open>Inl\<close> with the message), and
  \<open>nextEvent\<close> is the sequence of events the session delivers after a request. An
  exception of the library is re-raised by the service as it is; it is a
  \<^const>\<open>FeedException\<close> here. An event is given by what its messages hold (the
  securities with their field data, or the dated points), so reading a delivered event
  does not raise.
\<close>

record ref_security =
  sec_name :: string
  field_data :: "(string \<times> string) list"

record ref_event =
  ref_messages :: "ref_security list option list"
  ref_is_response :: bool

record hist_point =
  point_date :: string
  point_fields :: "(string \<times> real) list"

record hist_event =
  hist_messages :: "hist_point list option list"
  hist_is_response :: bool

record blpapi =
  new_session :: "string \<Rightarrow> int \<Rightarrow> string + unit"
  session_start :: "string + bool"
  open_service :: "string \<Rightarrow> string + bool"
  session_stop :: "string + unit"
  send_reference_request :: "string list \<Rightarrow> string list \<Rightarrow> string + unit"
  reference_events :: "string list \<Rightarrow> string list \<Rightarrow> nat \<Rightarrow> string + ref_event"
  send_historical_request :: "string \<Rightarrow> string list \<Rightarrow> string \<Rightarrow> string \<Rightarrow> string + unit"
  historical_events ::
    "string \<Rightarrow> string list \<Rightarrow> string \<Rightarrow> string \<Rightarrow> nat \<Rightarrow> string + hist_event"

text \<open>
  The standard library, for the mock history: \<open>datetime.strptime(s, "%Y%m%d")\<close> gives the
  day as its proleptic Gregorian ordinal or raises \<open>ValueError\<close>; \<open>strftime("%Y-%m-%d")\<close>
  prints a day; \<open>uniform_draw k\<close> and \<open>randint_draw k\<close> are the k-th results of
  \<open>random.uniform(-0.03, 0.035)\<close> and \<open>random.randint(1000000, 50000000)\<close> in a run.
\<close>

record stdlib =
  strptime :: "string \<Rightarrow> string + int"
  strftime :: "int \<Rightarrow> string"
  uniform_draw :: "nat \<Rightarrow> real"
  randint_draw :: "nat \<Rightarrow> int"

subsection \<open>Connection\<close>

definition connect :: "blpapi \<Rightarrow> bloomberg_service \<Rightarrow> bool \<times> bloomberg_service" where
  "connect lib self =
     (if \<not> blpapi_available self then (True, self\<lparr>connected := True\<rparr>)
      else
        (case new_session lib (host self) (port self) of
           Inl e \<Rightarrow> (False, self)
         | Inr _ \<Rightarrow>
             (let self1 = self\<lparr>has_session := True\<rparr>
              in case session_start lib of
                   Inl e \<Rightarrow> (False, self1)
                 | Inr started \<Rightarrow>
                     if \<not> started then (False, self1)
                     else
                       (case open_service lib ''//blp/refdata'' of
                          Inl e \<Rightarrow> (False, self1)
                        | Inr opened \<Rightarrow>
                            if \<not> opened then (False, self1)
                            else (True, self1\<lparr>connected := True\<rparr>)))))"

definition disconnect ::
    "blpapi \<Rightarrow> bloomberg_service \<Rightarrow> (py_exception + unit) \<times> bloomberg_service" where
  "disconnect lib self =
     (if has_session self
      then (case session_stop lib of
              Inl e \<Rightarrow> (Inl (FeedException e), self)
            | Inr _ \<Rightarrow> (Inr (), self\<lparr>connected := False\<rparr>))
      else (Inr (), self\<lparr>connected := False\<rparr>))"

definition is_connected :: "bloomberg_service \<Rightarrow> bool" where
  "is_connected self = connected self"

subsection \<open>Reference data\<close>

type_synonym refdata = "(string \<times> (string \<times> string) list) list"

definition mock_data :: refdata where
  "mock_data =
    [(''NVDA US Equity'',
        [(''PX_LAST'', ''875.28''), (''CHG_PCT_1D'', ''2.34''), (''CUR_MKT_CAP'', ''2150000000000''), (''PE_RATIO'', ''65.2''), (''BEST_EPS_1YR'', ''13.42''), (''NAME'', ''NVIDIA Corp'')]),
     (''AMD US Equity'',
        [(''PX_LAST'', ''178.45''), (''CHG_PCT_1D'', ''1.82''), (''CUR_MKT_CAP'', ''288000000000''), (''PE_RATIO'', ''48.7''), (''BEST_EPS_1YR'', ''3.66''), (''NAME'', ''Advanced Micro Devices Inc'')]),
     (''INTC US Equity'',
        [(''PX_LAST'', ''31.24''), (''CHG_PCT_1D'', ''-0.45''), (''CUR_MKT_CAP'', ''132000000000''), (''PE_RATIO'', ''32.1''), (''BEST_EPS_1YR'', ''0.97''), (''NAME'', ''Intel Corp'')]),
     (''TSM US Equity'',
        [(''PX_LAST'', ''142.67''), (''CHG_PCT_1D'', ''1.12''), (''CUR_MKT_CAP'', ''740000000000''), (''PE_RATIO'', ''24.8''), (''BEST_EPS_1YR'', ''5.75''), (''NAME'', ''Taiwan Semiconductor Manufacturing Co Ltd'')]),
     (''AVGO US Equity'',
        [(''PX_LAST'', ''1324.56''), (''CHG_PCT_1D'', ''0.89''), (''CUR_MKT_CAP'', ''615000000000''), (''PE_RATIO'', ''35.6''), (''BEST_EPS_1YR'', ''37.21''), (''NAME'', ''Broadcom Inc'')]),
     (''EQIX US Equity'',
        [(''PX_LAST'', ''812.34''), (''DVD_YLD'', ''2.1''), (''FUNDS_FROM_OPS'', ''32.45''), (''CUR_MKT_CAP'', ''76000000000''), (''NAME'', ''Equinix Inc'')]),
     (''DLR US Equity'',
        [(''PX_LAST'', ''142.89''), (''DVD_YLD'', ''3.4''), (''FUNDS_FROM_OPS'', ''6.78''), (''CUR_MKT_CAP'', ''44000000000''), (''NAME'', ''Digital Realty Trust Inc'')])]"

definition get_mock_reference_data :: "string list \<Rightarrow> string list \<Rightarrow> refdata" where
  "get_mock_reference_data securities flds =
     fold (\<lambda>security results.
             case map_of mock_data security of
               None \<Rightarrow> results
             | Some row \<Rightarrow>
                 AList.update security
                   (fold (\<lambda>field d.
                            AList.update field
                              (case map_of row field of None \<Rightarrow> ''N/A'' | Some v \<Rightarrow> v) d)
                         flds [])
                   results)
          securities []"

text \<open>One message of a reference response: every security of its \<open>securityData\<close>.\<close>

definition ref_message :: "string list \<Rightarrow> ref_security list option \<Rightarrow> refdata \<Rightarrow> refdata" where
  "ref_message flds msg results =
     (case msg of
        None \<Rightarrow> results
      | Some secs \<Rightarrow>
          fold (\<lambda>sec res.
                  AList.update (sec_name sec)
                    (fold (\<lambda>field d.
                             case map_of (field_data sec) field of
                               None \<Rightarrow> d
                             | Some v \<Rightarrow> AList.update field v d)
                          flds [])
                    res)
               secs results)"

text \<open>
  The loop \<open>while True\<close> over \<open>nextEvent\<close> ends at the first \<open>RESPONSE\<close> event. A session
  that never delivers one keeps it running, so the loop takes fuel: \<open>None\<close> is a run
  that has not returned within it.
\<close>

fun reference_loop ::
    "nat \<Rightarrow> (nat \<Rightarrow> string + ref_event) \<Rightarrow> nat \<Rightarrow> string list \<Rightarrow> refdata
      \<Rightarrow> (py_exception + refdata) option" where
  "reference_loop 0 events k flds results = None"
| "reference_loop (Suc fuel) events k flds results =
     (case events k of
        Inl e \<Rightarrow> Some (Inl (FeedException e))
      | Inr event \<Rightarrow>
          (let results' = fold (ref_message flds) (ref_messages event) results
           in if ref_is_response event then Some (Inr results')
              else reference_loop fuel events (k + 1) flds results'))"

definition get_reference_data ::
    "blpapi \<Rightarrow> nat \<Rightarrow> bloomberg_service \<Rightarrow> string list \<Rightarrow> string list
      \<Rightarrow> (py_exception + refdata) option" where
  "get_reference_data lib fuel self securities flds =
     (if \<not> connected self then Some (Inl (ConnectionError ''Not connected to Bloomberg''))
      else if \<not> blpapi_available self
        then Some (Inr (get_mock_reference_data securities flds))
      else
        (case send_reference_request lib securities flds of
           Inl e \<Rightarrow> Some (Inl (FeedException e))
         | Inr _ \<Rightarrow>
             reference_loop fuel (reference_events lib securities flds) 0 flds []))"

subsection \<open>Historical data\<close>

datatype py_value = PyStr string | PyFloat real | PyInt int

type_synonym history = "(string \<times> py_value) list list"

definition hist_message :: "string list \<Rightarrow> hist_point list option \<Rightarrow> history \<Rightarrow> history" where
  "hist_message flds msg results =
     (case msg of
        None \<Rightarrow> results
      | Some points \<Rightarrow>
          results @
          map (\<lambda>pt. fold (\<lambda>field d.
                            case map_of (point_fields pt) field of
                              None \<Rightarrow> d
                            | Some v \<Rightarrow> AList.update field (PyFloat v) d)
                         flds [(''date'', PyStr (point_date pt))])
              points)"

fun historical_loop ::
    "nat \<Rightarrow> (nat \<Rightarrow> string + hist_event) \<Rightarrow> nat \<Rightarrow> string list \<Rightarrow> history
      \<Rightarrow> (py_exception + history) option" where
  "historical_loop 0 events k flds results = None"
| "historical_loop (Suc fuel) events k flds results =
     (case events k of
        Inl e \<Rightarrow> Some (Inl (FeedException e))
      | Inr event \<Rightarrow>
          (let results' = fold (hist_message flds) (hist_messages event) results
           in if hist_is_response event then Some (Inr results')
              else historical_loop fuel events (k + 1) flds results'))"

text \<open>
  The fields of one mock point: \<open>PX_LAST\<close> is the rounded price, each \<open>PX_VOLUME\<close> takes
  the next \<open>randint\<close>, any other field is skipped. The counter of \<open>randint\<close> draws is
  threaded through.
\<close>

fun mock_point_fields ::
    "stdlib \<Rightarrow> real \<Rightarrow> string list \<Rightarrow> (string \<times> py_value) list \<Rightarrow> nat
      \<Rightarrow> (string \<times> py_value) list \<times> nat" where
  "mock_point_fields env base_price [] point ki = (point, ki)"
| "mock_point_fields env base_price (field # rest) point ki =
     (if field = ''PX_LAST''
      then mock_point_fields env base_price rest
             (AList.update field (PyFloat (py_round2 base_price)) point) ki
      else if field = ''PX_VOLUME''
      then mock_point_fields env base_price rest
             (AList.update field (PyInt (randint_draw env ki)) point) (ki + 1)
      else mock_point_fields env base_price rest point ki)"

text \<open>
  One day of the walk. \<open>weekday()\<close> of the day with ordinal \<open>d\<close> is \<open>(d + 6) mod 7\<close>,
  Monday being 0; a business day moves the price by one \<open>uniform\<close> draw and appends a
  point, a weekend day changes nothing.
\<close>

definition mock_day ::
    "stdlib \<Rightarrow> string list \<Rightarrow> int \<Rightarrow> real \<Rightarrow> nat \<Rightarrow> nat \<Rightarrow> history
      \<Rightarrow> real \<times> nat \<times> nat \<times> history" where
  "mock_day env flds current base_price ku ki results =
     (if (current + 6) mod 7 < 5
      then
        (let bp = base_price * (1 + uniform_draw env ku);
             pt = mock_point_fields env bp flds [(''date'', PyStr (strftime env current))] ki
         in (bp, ku + 1, snd pt, results @ [fst pt]))
      else (base_price, ku, ki, results))"

text \<open>
  The walk from \<open>start\<close> to \<open>end\<close>, day by day. \<open>current += timedelta(days=1)\<close> raises
  \<open>OverflowError\<close> past the last day of year 9999, whose ordinal is 3652059.
\<close>

function mock_walk ::
    "stdlib \<Rightarrow> string list \<Rightarrow> int \<Rightarrow> int \<Rightarrow> real \<times> nat \<times> nat \<times> history
      \<Rightarrow> py_exception + history" where
  "mock_walk env flds current end_day st =
     (if current \<le> end_day
      then
        (let st' = (case st of (base_price, ku, ki, results) \<Rightarrow>
                      mock_day env flds current base_price ku ki results)
         in if current + 1 > 3652059 then Inl OverflowError
            else mock_walk env flds (current + 1) end_day st')
      else Inr (snd (snd (snd st))))"
  by pat_completeness auto
termination
  by (relation "measure (\<lambda>(env, flds, current, end_day, st). nat (end_day + 1 - current))")
     auto

definition get_mock_historical_data ::
    "stdlib \<Rightarrow> string \<Rightarrow> string list \<Rightarrow> string \<Rightarrow> string \<Rightarrow> py_exception + history" where
  "get_mock_historical_data env security flds start_date end_date =
     (case strptime env start_date of
        Inl e \<Rightarrow> Inl (ValueError e)
      | Inr start \<Rightarrow>
          (case strptime env end_date of
             Inl e \<Rightarrow> Inl (ValueError e)
           | Inr end_day \<Rightarrow> mock_walk env flds start end_day (100, 0, 0, [])))"

definition get_historical_data ::
    "blpapi \<Rightarrow> stdlib \<Rightarrow> nat \<Rightarrow> bloomberg_service \<Rightarrow> string \<Rightarrow> string list \<Rightarrow> string
      \<Rightarrow> string \<Rightarrow> (py_exception + history) option" where
  "get_historical_data lib env fuel self security flds start_date end_date =
     (if \<not> connected self then Some (Inl (ConnectionError ''Not connected to Bloomberg''))
      else if \<not> blpapi_available self
        then Some (get_mock_historical_data env security flds start_date end_date)
      else
        (case send_historical_request lib security flds start_date end_date of
           Inl e \<Rightarrow> Some (Inl (FeedException e))
         | Inr _ \<Rightarrow>
             historical_loop fuel
               (historical_events lib security flds start_date end_date) 0 flds []))"

subsection \<open>Convenience calls\<close>

definition get_gpu_market_data ::
    "blpapi \<Rightarrow> nat \<Rightarrow> bloomberg_service \<Rightarrow> (py_exception + refdata) option" where
  "get_gpu_market_data lib fuel self =
     get_reference_data lib fuel self
       [''NVDA US Equity'', ''AMD US Equity'', ''INTC US Equity'', ''TSM US Equity'',
        ''AVGO US Equity'']
       [''PX_LAST'', ''CHG_PCT_1D'', ''CUR_MKT_CAP'', ''PE_RATIO'', ''BEST_EPS_1YR'']"

definition get_datacenter_reit_data ::
    "blpapi \<Rightarrow> nat \<Rightarrow> bloomberg_service \<Rightarrow> (py_exception + refdata) option" where
  "get_datacenter_reit_data lib fuel self =
     get_reference_data lib fuel self
       [''EQIX US Equity'', ''DLR US Equity'', ''AMT US Equity'', ''CCI US Equity'']
       [''PX_LAST'', ''DVD_YLD'', ''FUNDS_FROM_OPS'', ''CUR_MKT_CAP'']"

section \<open>Verification: training service\<close>

lemma py_index_in_range:
  "0 \<le> i \<Longrightarrow> i < int (length xs) \<Longrightarrow> py_index xs i = Inr (xs ! nat i)"
  by (simp add: py_index_def)

lemma grade_ok:
  "\<forall>p\<in>set ps. question_ok (snd p) \<Longrightarrow>
   grade ps rs c = Inr (rs @ map graded_entry ps, c + length (filter (\<lambda>(a, q). a = correct q) ps))"
proof (induction ps arbitrary: rs c)
  case Nil
  then show ?case by simp
next
  case (Cons p ps)
  obtain a q where p: "p = (a, q)" by (cases p)
  from Cons.prems have okq: "question_ok q" and rest: "\<forall>p\<in>set ps. question_ok (snd p)"
    by (simp_all add: p)
  have idx: "py_index (options q) (correct q) = Inr (options q ! nat (correct q))"
    using okq by (simp add: question_ok_def py_index_in_range)
  show ?case
    using Cons.IH[OF rest] by (simp add: p idx graded_entry_def Let_def)
qed

lemma zip_questions_ok:
  "list_all question_ok qz \<Longrightarrow> \<forall>p\<in>set (zip answers qz). question_ok (snd p)"
  by (auto simp: list_all_iff dest: set_zip_rightD)

lemma submit_quiz_graded:
  assumes "get_lesson self m l = Some ls" and "lesson_ok ls"
    and "length answers = length (lesson_quiz ls)"
  shows "submit_quiz self m l answers u =
    (let qz = lesson_quiz ls;
         sc = (if qz \<noteq> [] then (real (count_correct answers qz) / real (length qz)) * 100 else 0)
     in (Inr (QuizResult \<lparr>q_score = sc, q_correct = count_correct answers qz,
                           q_total = length qz, q_results = map graded_entry (zip answers qz),
                           passed = (sc \<ge> 70)\<rparr>),
         self\<lparr>user_progress := record_attempt (user_progress self) u (progress_key m l)
                  \<lparr>score = sc, completed = True\<rparr>\<rparr>))"
proof -
  have g: "grade (zip answers (lesson_quiz ls)) [] 0 =
      Inr (map graded_entry (zip answers (lesson_quiz ls)), count_correct answers (lesson_quiz ls))"
    using grade_ok[OF zip_questions_ok, of "lesson_quiz ls" answers "[]" 0] assms(2)
    by (simp add: lesson_ok_def count_correct_def)
  show ?thesis
    using assms(1,3) g
    by (simp add: submit_quiz_def lesson_quiz_def[symmetric] Let_def)
qed


lemma count_correct_le: "count_correct answers qz \<le> length qz"
proof -
  have "count_correct answers qz \<le> length (zip answers qz)"
    unfolding count_correct_def by (rule length_filter_le)
  then show ?thesis by simp
qed

lemma count_correct_all:
  "count_correct (map correct qz) qz = length qz"
  unfolding count_correct_def by (induction qz) simp_all

lemma count_correct_none:
  "length answers = length qz \<Longrightarrow> \<forall>i<length qz. answers ! i \<noteq> correct (qz ! i) \<Longrightarrow>
   count_correct answers qz = 0"
proof -
  assume len: "length answers = length qz" and wrong: "\<forall>i<length qz. answers ! i \<noteq> correct (qz ! i)"
  have "\<forall>p\<in>set (zip answers qz). \<not> (case p of (a, q) \<Rightarrow> a = correct q)"
  proof
    fix p assume "p \<in> set (zip answers qz)"
    then obtain i where "i < length (zip answers qz)" and "zip answers qz ! i = p"
      by (auto simp: in_set_conv_nth)
    then show "\<not> (case p of (a, q) \<Rightarrow> a = correct q)"
      using len wrong by auto
  qed
  then have "filter (\<lambda>(a, q). a = correct q) (zip answers qz) = []"
    by (simp add: filter_empty_conv)
  then show ?thesis by (simp add: count_correct_def)
qed

text \<open>
  Claim C1. A submission that passes validation (the lesson resolves and there is one
  answer per question) is graded: the score is 100 times the share of correct answers,
  and 0 for a quiz with no question; \<open>passed\<close> is \<open>score \<ge> 70\<close>; an answer index outside
  \<open>[0, number of options)\<close> is counted as incorrect and shown as \<open>Invalid\<close>, and nothing
  is raised; an empty quiz scores 0 and does not pass. The catalog is assumed to meet the
  invariant of its data model (\<^const>\<open>question_ok\<close>: the correct index is an index of the
  options), which \<^const>\<open>initialize_modules\<close> does.
\<close>

theorem submit_quiz_scores:
  assumes "get_lesson self m l = Some ls"
    and "lesson_ok ls"
    and "length answers = length (lesson_quiz ls)"
  shows "\<exists>r. fst (submit_quiz self m l answers u) = Inr (QuizResult r)
     \<and> q_total r = length (lesson_quiz ls)
     \<and> q_correct r = count_correct answers (lesson_quiz ls)
     \<and> q_score r = (if q_total r = 0 then 0 else 100 * (real (q_correct r) / real (q_total r)))
     \<and> passed r = (q_score r \<ge> 70)
     \<and> length (q_results r) = q_total r
     \<and> (\<forall>i<q_total r.
          is_correct (q_results r ! i) = (answers ! i = correct (lesson_quiz ls ! i))
        \<and> (if 0 \<le> answers ! i \<and> answers ! i < int (length (options (lesson_quiz ls ! i)))
           then your_answer (q_results r ! i) = options (lesson_quiz ls ! i) ! nat (answers ! i)
           else your_answer (q_results r ! i) = ''Invalid'' \<and> \<not> is_correct (q_results r ! i)))
     \<and> (lesson_quiz ls = [] \<longrightarrow> q_score r = 0 \<and> \<not> passed r)"
proof -
  let ?qz = "lesson_quiz ls"
  let ?sc = "if ?qz \<noteq> [] then (real (count_correct answers ?qz) / real (length ?qz)) * 100 else 0"
  let ?r = "\<lparr>q_score = ?sc, q_correct = count_correct answers ?qz, q_total = length ?qz,
             q_results = map graded_entry (zip answers ?qz), passed = (?sc \<ge> 70)\<rparr>"
  have res: "fst (submit_quiz self m l answers u) = Inr (QuizResult ?r)"
    using submit_quiz_graded[OF assms, of u] by (simp add: Let_def)
  have entries: "is_correct (q_results ?r ! i) = (answers ! i = correct (?qz ! i))
        \<and> (if 0 \<le> answers ! i \<and> answers ! i < int (length (options (?qz ! i)))
           then your_answer (q_results ?r ! i) = options (?qz ! i) ! nat (answers ! i)
           else your_answer (q_results ?r ! i) = ''Invalid'' \<and> \<not> is_correct (q_results ?r ! i))"
    if i: "i < length ?qz" for i
  proof -
    have ok: "question_ok (?qz ! i)"
      using assms(2) i by (simp add: lesson_ok_def list_all_length)
    have nth: "q_results ?r ! i = graded_entry (answers ! i, ?qz ! i)"
      using i assms(3) by simp
    show ?thesis
      unfolding nth using ok by (auto simp: graded_entry_def question_ok_def)
  qed
  have "q_total ?r = length ?qz" by simp
  moreover have "q_correct ?r = count_correct answers ?qz" by simp
  moreover have "q_score ?r = (if q_total ?r = 0 then 0 else 100 * (real (q_correct ?r) / real (q_total ?r)))"
    by simp
  moreover have "passed ?r = (q_score ?r \<ge> 70)" by simp
  moreover have "length (q_results ?r) = q_total ?r" using assms(3) by simp
  moreover have "?qz = [] \<longrightarrow> q_score ?r = 0 \<and> \<not> passed ?r" by simp
  ultimately show ?thesis using res entries
    by (intro exI[of _ ?r]) (simp only: simp_thms, blast)
qed


lemma get_lesson_user_progress_update:
  "get_lesson (self\<lparr>user_progress := up\<rparr>) m l = get_lesson self m l"
  by (simp add: get_lesson_def)

lemma get_lesson_None_iff:
  "(get_lesson self m l = None) =
   (case map_of (modules self) m of None \<Rightarrow> True | Some md \<Rightarrow> l \<notin> lesson_id ` set (lessons md))"
  by (auto simp: get_lesson_def find_None_iff split: option.splits)

lemma get_lesson_ok:
  assumes "catalog_ok (modules self)" and "get_lesson self m l = Some ls"
  shows "lesson_ok ls"
proof -
  from assms(2) obtain md where md: "map_of (modules self) m = Some md"
    and f: "find (\<lambda>x. lesson_id x = l) (lessons md) = Some ls"
    by (auto simp: get_lesson_def split: option.splits)
  from md have "(m, md) \<in> set (modules self)" by (rule map_of_SomeD)
  with assms(1) have all: "list_all lesson_ok (lessons md)"
    by (auto simp: catalog_ok_def list_all_iff)
  from f have "ls \<in> set (lessons md)"
    by (auto simp: find_Some_iff)
  with all show ?thesis by (simp add: list_all_iff)
qed

lemma record_attempt_eq:
  "record_attempt up u k a =
     AList.update u (AList.update k a (case map_of up u of None \<Rightarrow> [] | Some p \<Rightarrow> p)) up"
  by (cases "map_of up u") (simp_all add: record_attempt_def AList.update_conv')

lemma record_attempt_twice:
  "record_attempt (record_attempt up u k a1) u k a2 = record_attempt up u k a2"
  by (simp add: record_attempt_eq AList.update_conv')

lemma map_of_record_attempt:
  "map_of (record_attempt up u k a) u =
     Some (AList.update k a (case map_of up u of None \<Rightarrow> [] | Some p \<Rightarrow> p))"
  by (simp add: record_attempt_eq AList.update_conv')

lemma filter_key_update:
  "distinct (map fst al) \<Longrightarrow> filter (\<lambda>e. fst e = k) (AList.update k v al) = [(k, v)]"
proof (induction al)
  case Nil
  then show ?case by simp
next
  case (Cons p al)
  show ?case
  proof (cases "fst p = k")
    case True
    have "k \<notin> fst ` set al" using Cons.prems True by simp
    then have "\<forall>e\<in>set al. fst e \<noteq> k" by (auto simp: image_iff)
    then have "filter (\<lambda>e. fst e = k) al = []" by (simp add: filter_empty_conv)
    then show ?thesis using True by simp
  next
    case False
    then show ?thesis using Cons by simp
  qed
qed

lemma length_update_same:
  "k \<in> fst ` set al \<Longrightarrow> length (AList.update k v al) = length al"
  by (induction al) auto

lemma progress_ok_inner:
  "progress_ok up \<Longrightarrow> distinct (map fst (case map_of up u of None \<Rightarrow> [] | Some p \<Rightarrow> p))"
  by (auto simp: progress_ok_def list_all_iff split: option.splits dest: map_of_SomeD)

lemma set_update_subset: "set (AList.update k v al) \<subseteq> insert (k, v) (set al)"
  by (induction al) auto

lemma progress_ok_record_attempt:
  assumes "progress_ok up"
  shows "progress_ok (record_attempt up u k a)"
proof -
  let ?p = "case map_of up u of None \<Rightarrow> [] | Some p \<Rightarrow> p"
  have d: "distinct (map fst (AList.update k a ?p))"
    using progress_ok_inner[OF assms] by (rule AList.distinct_update)
  have "distinct (map fst (AList.update u (AList.update k a ?p) up))"
    using assms by (simp add: progress_ok_def AList.distinct_update)
  moreover have "\<forall>e\<in>set (AList.update u (AList.update k a ?p) up). distinct (map fst (snd e))"
  proof
    fix e assume "e \<in> set (AList.update u (AList.update k a ?p) up)"
    then have "e = (u, AList.update k a ?p) \<or> e \<in> set up"
      using set_update_subset[of u "AList.update k a ?p" up] by blast
    then show "distinct (map fst (snd e))"
      using assms d by (auto simp: progress_ok_def list_all_iff)
  qed
  ultimately show ?thesis
    by (simp add: record_attempt_eq progress_ok_def list_all_iff case_prod_beta)
qed

lemma submit_quiz_modules:
  "modules (snd (submit_quiz self m l answers u)) = modules self"
  by (auto simp: submit_quiz_def Let_def split: option.splits sum.splits prod.splits)

lemma progress_ok_submit_quiz:
  "progress_ok (user_progress self) \<Longrightarrow>
   progress_ok (user_progress (snd (submit_quiz self m l answers u)))"
  by (auto simp: submit_quiz_def Let_def progress_ok_record_attempt
      split: option.splits sum.splits prod.splits)

lemma progress_ok_training_init: "progress_ok (user_progress training_init)"
  by (simp add: training_init_def progress_ok_def)

lemma stored_after_record:
  assumes "progress_ok up"
  shows "stored_attempts (self\<lparr>user_progress := record_attempt up u (progress_key m l) a\<rparr>) u m l = [a]"
  using filter_key_update[OF progress_ok_inner[OF assms], of "progress_key m l" a u]
  by (simp add: stored_attempts_def progress_of_def map_of_record_attempt)


lemma get_lesson_gpu_1:
  "get_lesson training_init ''gpu_fundamentals'' ''gpu_1'' =
     Some \<lparr>lesson_id = ''gpu_1'', quiz = Some gpu_1_quiz\<rparr>"
  by (simp add: get_lesson_def training_init_def initialize_modules_def)

lemma lesson_ok_gpu_1: "lesson_ok \<lparr>lesson_id = ''gpu_1'', quiz = Some gpu_1_quiz\<rparr>"
  by (simp add: lesson_ok_def lesson_quiz_def question_ok_def gpu_1_quiz_def)

lemma catalog_ok_initialize_modules: "catalog_ok initialize_modules"
  by (simp add: catalog_ok_def initialize_modules_def lesson_ok_def lesson_quiz_def
      question_ok_def gpu_1_quiz_def gpu_2_quiz_def tco_1_quiz_def tco_2_quiz_def
      neo_1_quiz_def bbg_1_quiz_def)

theorem submit_quiz_scores_witness:
  "(\<exists>r. fst (submit_quiz training_init ''gpu_fundamentals'' ''gpu_1'' [1, 7] ''default'')
          = Inr (QuizResult r)
      \<and> q_total r = 2 \<and> q_correct r = 1 \<and> q_score r = 50 \<and> \<not> passed r
      \<and> is_correct (q_results r ! 0)
      \<and> your_answer (q_results r ! 0) = ''Massive parallelism for matrix operations''
      \<and> \<not> is_correct (q_results r ! 1) \<and> your_answer (q_results r ! 1) = ''Invalid'')
   \<and> (\<exists>r. fst (submit_quiz
               \<lparr>modules = [(''m'', \<lparr>lessons = [\<lparr>lesson_id = ''l'', quiz = Some []\<rparr>]\<rparr>)],
                user_progress = []\<rparr> ''m'' ''l'' [] ''default'') = Inr (QuizResult r)
      \<and> q_total r = 0 \<and> q_score r = 0 \<and> \<not> passed r)"
proof -
  let ?ls = "\<lparr>lesson_id = ''gpu_1'', quiz = Some gpu_1_quiz\<rparr>"
  have len: "length [1, 7 :: int] = length (lesson_quiz ?ls)"
    by (simp add: lesson_quiz_def gpu_1_quiz_def)
  have qz: "lesson_quiz ?ls = gpu_1_quiz" by (simp add: lesson_quiz_def)
  have cc: "count_correct [1, 7] gpu_1_quiz = 1"
    by (simp add: count_correct_def gpu_1_quiz_def)
  have n: "length gpu_1_quiz = 2" by (simp add: gpu_1_quiz_def)
  have q0: "gpu_1_quiz ! 0 = hd gpu_1_quiz" and q1: "gpu_1_quiz ! 1 = hd (tl gpu_1_quiz)"
    by (simp_all add: gpu_1_quiz_def)
  from submit_quiz_scores[OF get_lesson_gpu_1 lesson_ok_gpu_1 len, of "''default''"]
  obtain r where r: "fst (submit_quiz training_init ''gpu_fundamentals'' ''gpu_1'' [1, 7] ''default'')
          = Inr (QuizResult r)"
    and tot: "q_total r = 2" and cor: "q_correct r = 1"
    and sc: "q_score r = (if q_total r = 0 then 0 else 100 * (real (q_correct r) / real (q_total r)))"
    and pa: "passed r = (q_score r \<ge> 70)"
    and each: "\<forall>i<q_total r.
          is_correct (q_results r ! i) = ([1, 7] ! i = correct (gpu_1_quiz ! i))
        \<and> (if 0 \<le> [1, 7 :: int] ! i \<and> [1, 7] ! i < int (length (options (gpu_1_quiz ! i)))
           then your_answer (q_results r ! i) = options (gpu_1_quiz ! i) ! nat ([1, 7] ! i)
           else your_answer (q_results r ! i) = ''Invalid'' \<and> \<not> is_correct (q_results r ! i))"
    unfolding qz cc n by blast
  have s50: "q_score r = 50" using sc tot cor by simp
  have e0: "is_correct (q_results r ! 0)
      \<and> your_answer (q_results r ! 0) = ''Massive parallelism for matrix operations''"
    using each[rule_format, of 0] tot by (simp add: gpu_1_quiz_def)
  have e1: "\<not> is_correct (q_results r ! 1) \<and> your_answer (q_results r ! 1) = ''Invalid''"
    using each[rule_format, of 1] tot by (simp add: gpu_1_quiz_def)
  have first: "\<exists>r. fst (submit_quiz training_init ''gpu_fundamentals'' ''gpu_1'' [1, 7] ''default'')
          = Inr (QuizResult r)
      \<and> q_total r = 2 \<and> q_correct r = 1 \<and> q_score r = 50 \<and> \<not> passed r
      \<and> is_correct (q_results r ! 0)
      \<and> your_answer (q_results r ! 0) = ''Massive parallelism for matrix operations''
      \<and> \<not> is_correct (q_results r ! 1) \<and> your_answer (q_results r ! 1) = ''Invalid''"
    using r tot cor s50 pa e0 e1 by (intro exI[of _ r]) simp
  let ?s = "\<lparr>modules = [(''m'', \<lparr>lessons = [\<lparr>lesson_id = ''l'', quiz = Some []\<rparr>]\<rparr>)],
              user_progress = []\<rparr>"
  let ?e = "\<lparr>lesson_id = ''l'', quiz = Some []\<rparr>"
  have g: "get_lesson ?s ''m'' ''l'' = Some ?e" by (simp add: get_lesson_def)
  have ok: "lesson_ok ?e" by (simp add: lesson_ok_def lesson_quiz_def)
  have len0: "length ([] :: int list) = length (lesson_quiz ?e)" by (simp add: lesson_quiz_def)
  have qe: "lesson_quiz ?e = []" by (simp add: lesson_quiz_def)
  from submit_quiz_scores[OF g ok len0, of "''default''"]
  have second: "\<exists>r. fst (submit_quiz ?s ''m'' ''l'' [] ''default'') = Inr (QuizResult r)
      \<and> q_total r = 0 \<and> q_score r = 0 \<and> \<not> passed r"
    unfolding qe by auto
  from first second show ?thesis by blast
qed

text \<open>
  Claim C6. On a catalog that meets its invariant, \<open>submit_quiz\<close> answers
  \<open>Lesson not found\<close> exactly when the module id is absent or no lesson of the module has
  the lesson id, answers \<open>Answer count mismatch\<close> exactly when the lesson resolves and the
  number of answers differs from the number of questions, raises nothing, and in every
  other case returns a graded result.
\<close>

theorem submit_quiz_failures:
  assumes "catalog_ok (modules self)"
  shows "((fst (submit_quiz self m l answers u) = Inr (Error ''Lesson not found''))
           = (case map_of (modules self) m of None \<Rightarrow> True
              | Some md \<Rightarrow> l \<notin> lesson_id ` set (lessons md)))
     \<and> ((fst (submit_quiz self m l answers u) = Inr (Error ''Answer count mismatch''))
           = (\<exists>ls. get_lesson self m l = Some ls \<and> length answers \<noteq> length (lesson_quiz ls)))
     \<and> (\<forall>e. fst (submit_quiz self m l answers u) \<noteq> Inl e)
     \<and> (\<forall>msg. fst (submit_quiz self m l answers u) = Inr (Error msg)
           \<longrightarrow> msg = ''Lesson not found'' \<or> msg = ''Answer count mismatch'')
     \<and> ((\<exists>r. fst (submit_quiz self m l answers u) = Inr (QuizResult r))
           = (\<exists>ls. get_lesson self m l = Some ls \<and> length answers = length (lesson_quiz ls)))"
proof (cases "get_lesson self m l")
  case None
  then have res: "submit_quiz self m l answers u = (Inr (Error ''Lesson not found''), self)"
    by (simp add: submit_quiz_def)
  from None have "case map_of (modules self) m of None \<Rightarrow> True
              | Some md \<Rightarrow> l \<notin> lesson_id ` set (lessons md)"
    by (simp add: get_lesson_None_iff)
  then show ?thesis using None by (simp add: res)
next
  case (Some ls)
  then have nres: "\<not> (case map_of (modules self) m of None \<Rightarrow> True
              | Some md \<Rightarrow> l \<notin> lesson_id ` set (lessons md))"
    using get_lesson_None_iff[of self m l] by simp
  show ?thesis
  proof (cases "length answers = length (lesson_quiz ls)")
    case True
    from submit_quiz_graded[OF Some get_lesson_ok[OF assms Some] True, of u]
    obtain r s' where "submit_quiz self m l answers u = (Inr (QuizResult r), s')"
      by (simp add: Let_def)
    then show ?thesis using Some True nres by simp
  next
    case False
    then have "submit_quiz self m l answers u = (Inr (Error ''Answer count mismatch''), self)"
      using Some by (simp add: submit_quiz_def lesson_quiz_def)
    then show ?thesis using Some False nres by simp
  qed
qed

lemma catalog_ok_training_init: "catalog_ok (modules training_init)"
  by (simp add: training_init_def catalog_ok_initialize_modules)

theorem submit_quiz_failures_witness:
  "catalog_ok (modules training_init)
   \<and> fst (submit_quiz training_init ''gpu_basics'' ''gpu_1'' [1, 2] ''default'')
       = Inr (Error ''Lesson not found'')
   \<and> fst (submit_quiz training_init ''gpu_fundamentals'' ''tco_1'' [1, 2] ''default'')
       = Inr (Error ''Lesson not found'')
   \<and> fst (submit_quiz training_init ''gpu_fundamentals'' ''gpu_1'' [1] ''default'')
       = Inr (Error ''Answer count mismatch'')
   \<and> (\<exists>r. fst (submit_quiz training_init ''gpu_fundamentals'' ''gpu_1'' [1, 2] ''default'')
       = Inr (QuizResult r))"
proof -
  note ok = catalog_ok_training_init
  have a: "fst (submit_quiz training_init ''gpu_basics'' ''gpu_1'' [1, 2] ''default'')
       = Inr (Error ''Lesson not found'')"
    using submit_quiz_failures[OF ok, of "''gpu_basics''" "''gpu_1''" "[1, 2]" "''default''"]
    by (simp add: training_init_def initialize_modules_def)
  have b: "fst (submit_quiz training_init ''gpu_fundamentals'' ''tco_1'' [1, 2] ''default'')
       = Inr (Error ''Lesson not found'')"
    using submit_quiz_failures[OF ok, of "''gpu_fundamentals''" "''tco_1''" "[1, 2]" "''default''"]
    by (simp add: training_init_def initialize_modules_def)
  have c: "fst (submit_quiz training_init ''gpu_fundamentals'' ''gpu_1'' [1] ''default'')
       = Inr (Error ''Answer count mismatch'')"
    using submit_quiz_failures[OF ok, of "''gpu_fundamentals''" "''gpu_1''" "[1]" "''default''"]
    by (simp add: get_lesson_gpu_1 lesson_quiz_def gpu_1_quiz_def)
  have d: "\<exists>r. fst (submit_quiz training_init ''gpu_fundamentals'' ''gpu_1'' [1, 2] ''default'')
       = Inr (QuizResult r)"
    using submit_quiz_failures[OF ok, of "''gpu_fundamentals''" "''gpu_1''" "[1, 2]" "''default''"]
    by (simp add: get_lesson_gpu_1 lesson_quiz_def gpu_1_quiz_def)
  from ok a b c d show ?thesis by simp
qed

text \<open>
  Claim C10. A call of \<open>submit_quiz\<close> that does not return a graded result (the lesson does
  not resolve, the answer count differs, or an exception is raised) leaves the whole
  service state, and so the progress of every user, as it was.
\<close>

theorem submit_quiz_atomic_on_error:
  "(get_lesson self m l = None \<longrightarrow> snd (submit_quiz self m l answers u) = self)
   \<and> (\<forall>ls. get_lesson self m l = Some ls \<and> length answers \<noteq> length (lesson_quiz ls)
         \<longrightarrow> snd (submit_quiz self m l answers u) = self)
   \<and> (\<forall>msg. fst (submit_quiz self m l answers u) = Inr (Error msg)
         \<longrightarrow> snd (submit_quiz self m l answers u) = self)
   \<and> (\<forall>e. fst (submit_quiz self m l answers u) = Inl e
         \<longrightarrow> snd (submit_quiz self m l answers u) = self)"
  by (auto simp: submit_quiz_def lesson_quiz_def Let_def split: option.splits sum.splits prod.splits)


theorem submit_quiz_atomic_on_error_witness:
  "get_lesson (training_init\<lparr>user_progress :=
        [(''alice'', [(''gpu_fundamentals_gpu_1'', \<lparr>score = 100, completed = True\<rparr>)])]\<rparr>)
      ''gpu_basics'' ''gpu_1'' = None
   \<and> snd (submit_quiz (training_init\<lparr>user_progress :=
        [(''alice'', [(''gpu_fundamentals_gpu_1'', \<lparr>score = 100, completed = True\<rparr>)])]\<rparr>)
      ''gpu_basics'' ''gpu_1'' [0, 0] ''alice'')
     = training_init\<lparr>user_progress :=
        [(''alice'', [(''gpu_fundamentals_gpu_1'', \<lparr>score = 100, completed = True\<rparr>)])]\<rparr>
   \<and> length [0 :: int] \<noteq> length (lesson_quiz \<lparr>lesson_id = ''gpu_1'', quiz = Some gpu_1_quiz\<rparr>)
   \<and> snd (submit_quiz (training_init\<lparr>user_progress :=
        [(''alice'', [(''gpu_fundamentals_gpu_1'', \<lparr>score = 100, completed = True\<rparr>)])]\<rparr>)
      ''gpu_fundamentals'' ''gpu_1'' [0] ''alice'')
     = training_init\<lparr>user_progress :=
        [(''alice'', [(''gpu_fundamentals_gpu_1'', \<lparr>score = 100, completed = True\<rparr>)])]\<rparr>"
proof -
  let ?s = "training_init\<lparr>user_progress :=
        [(''alice'', [(''gpu_fundamentals_gpu_1'', \<lparr>score = 100, completed = True\<rparr>)])]\<rparr>"
  let ?ls = "\<lparr>lesson_id = ''gpu_1'', quiz = Some gpu_1_quiz\<rparr>"
  have none: "get_lesson ?s ''gpu_basics'' ''gpu_1'' = None"
    by (simp add: get_lesson_def training_init_def initialize_modules_def)
  have some: "get_lesson ?s ''gpu_fundamentals'' ''gpu_1'' = Some ?ls"
    by (simp add: get_lesson_user_progress_update get_lesson_gpu_1)
  have len: "length [0 :: int] \<noteq> length (lesson_quiz ?ls)"
    by (simp add: lesson_quiz_def gpu_1_quiz_def)
  have a: "snd (submit_quiz ?s ''gpu_basics'' ''gpu_1'' [0, 0] ''alice'') = ?s"
    using submit_quiz_atomic_on_error[of ?s "''gpu_basics''" "''gpu_1''" "[0, 0]" "''alice''"] none
    by blast
  have b: "snd (submit_quiz ?s ''gpu_fundamentals'' ''gpu_1'' [0] ''alice'') = ?s"
    using submit_quiz_atomic_on_error[of ?s "''gpu_fundamentals''" "''gpu_1''" "[0]" "''alice''"]
      some len by blast
  from none a len b show ?thesis by blast
qed

lemma completed_lessons_eq:
  "completed_lessons (get_user_progress self u) = length (progress_of self u)"
  by (simp add: get_user_progress_def progress_of_def Let_def)

lemma progress_of_record:
  "progress_of (self\<lparr>user_progress := record_attempt up u k a\<rparr>) u =
     AList.update k a (case map_of up u of None \<Rightarrow> [] | Some p \<Rightarrow> p)"
  by (simp add: progress_of_def map_of_record_attempt)

lemma catalog_quizzes_nonempty:
  "list_all (\<lambda>(_, m). list_all (\<lambda>l. lesson_quiz l \<noteq> []) (lessons m)) initialize_modules"
  by (simp add: initialize_modules_def lesson_quiz_def gpu_1_quiz_def gpu_2_quiz_def
      tco_1_quiz_def tco_2_quiz_def neo_1_quiz_def bbg_1_quiz_def)

lemma get_lesson_in_catalog:
  assumes "get_lesson self m l = Some ls"
  shows "\<exists>md. (m, md) \<in> set (modules self) \<and> ls \<in> set (lessons md)"
proof -
  from assms obtain md where md: "map_of (modules self) m = Some md"
    and f: "find (\<lambda>x. lesson_id x = l) (lessons md) = Some ls"
    by (auto simp: get_lesson_def split: option.splits)
  from md have "(m, md) \<in> set (modules self)" by (rule map_of_SomeD)
  moreover from f have "ls \<in> set (lessons md)" by (auto simp: find_Some_iff)
  ultimately show ?thesis by blast
qed

lemma catalog_lesson_facts:
  assumes "modules self = initialize_modules" and "get_lesson self m l = Some ls"
  shows "lesson_ok ls" and "lesson_quiz ls \<noteq> []"
proof -
  from get_lesson_in_catalog[OF assms(2)] assms(1)
  obtain md where in1: "(m, md) \<in> set initialize_modules" and in2: "ls \<in> set (lessons md)"
    by auto
  from catalog_ok_initialize_modules in1 in2 show "lesson_ok ls"
    by (auto simp: catalog_ok_def list_all_iff)
  from catalog_quizzes_nonempty in1 in2 show "lesson_quiz ls \<noteq> []"
    by (auto simp: list_all_iff)
qed

lemma total_lessons_catalog:
  "modules self = initialize_modules \<Longrightarrow> total_lessons (get_user_progress self u) = 6"
  by (simp add: get_user_progress_def Let_def initialize_modules_def)

lemma report_of_progress:
  "lesson_details (get_user_progress self u) = progress_of self u"
  "completed_lessons (get_user_progress self u) = length (progress_of self u)"
  "average_score (get_user_progress self u) =
     (if progress_of self u \<noteq> []
      then sum_list (map (\<lambda>(_, p). score p) (progress_of self u)) / real (length (progress_of self u))
      else 0)"
  by (simp_all add: get_user_progress_def progress_of_def Let_def)

text \<open>
  Claim C2. One attempt is stored per user, module and lesson. When the same user submits
  twice for the same lesson of the catalog, the store holds for that lesson exactly the
  attempt of the second submission, and the state after both is the state the second alone
  would have left: no history is kept. The report of \<open>get_user_progress\<close> then shows the
  user's earlier entries with this lesson's entry set to the second score, counts and
  averages exactly these entries, and does not count the lesson twice. All-correct answers
  score 100 and pass (every quiz of the catalog has a question); all-wrong answers then
  leave the stored score at 0, which does not pass. The stored entry is
  \<open>{"score", "completed"}\<close>; \<open>passed\<close> is a field of the returned result.
  \<^const>\<open>progress_ok\<close> is the uniqueness of dict keys in the association-list model,
  kept by every submission.
\<close>

theorem resubmission_overwrites:
  assumes "modules self = initialize_modules"
    and "get_lesson self m l = Some ls"
    and "length a1 = length (lesson_quiz ls)"
    and "length a2 = length (lesson_quiz ls)"
    and "progress_ok (user_progress self)"
  shows "\<exists>r1 r2.
      fst (submit_quiz self m l a1 u) = Inr (QuizResult r1)
    \<and> fst (submit_quiz (snd (submit_quiz self m l a1 u)) m l a2 u) = Inr (QuizResult r2)
    \<and> stored_attempts (snd (submit_quiz self m l a1 u)) u m l
        = [\<lparr>score = q_score r1, completed = True\<rparr>]
    \<and> stored_attempts (snd (submit_quiz (snd (submit_quiz self m l a1 u)) m l a2 u)) u m l
        = [\<lparr>score = q_score r2, completed = True\<rparr>]
    \<and> snd (submit_quiz (snd (submit_quiz self m l a1 u)) m l a2 u)
        = snd (submit_quiz self m l a2 u)
    \<and> progress_ok (user_progress (snd (submit_quiz (snd (submit_quiz self m l a1 u)) m l a2 u)))
    \<and> lesson_details
         (get_user_progress (snd (submit_quiz (snd (submit_quiz self m l a1 u)) m l a2 u)) u)
        = AList.update (progress_key m l) \<lparr>score = q_score r2, completed = True\<rparr>
            (progress_of self u)
    \<and> map_of (lesson_details
         (get_user_progress (snd (submit_quiz (snd (submit_quiz self m l a1 u)) m l a2 u)) u))
         (progress_key m l) = Some \<lparr>score = q_score r2, completed = True\<rparr>
    \<and> completed_lessons
         (get_user_progress (snd (submit_quiz (snd (submit_quiz self m l a1 u)) m l a2 u)) u)
        = length (AList.update (progress_key m l) \<lparr>score = q_score r2, completed = True\<rparr>
            (progress_of self u))
    \<and> completed_lessons
         (get_user_progress (snd (submit_quiz (snd (submit_quiz self m l a1 u)) m l a2 u)) u)
        = completed_lessons (get_user_progress (snd (submit_quiz self m l a1 u)) u)
    \<and> total_lessons
         (get_user_progress (snd (submit_quiz (snd (submit_quiz self m l a1 u)) m l a2 u)) u) = 6
    \<and> average_score
         (get_user_progress (snd (submit_quiz (snd (submit_quiz self m l a1 u)) m l a2 u)) u)
        = sum_list (map (\<lambda>(_, p). score p)
            (AList.update (progress_key m l) \<lparr>score = q_score r2, completed = True\<rparr>
               (progress_of self u)))
          / real (length
            (AList.update (progress_key m l) \<lparr>score = q_score r2, completed = True\<rparr>
               (progress_of self u)))
    \<and> (progress_of self u = [] \<longrightarrow>
          completed_lessons
            (get_user_progress (snd (submit_quiz (snd (submit_quiz self m l a1 u)) m l a2 u)) u) = 1
        \<and> average_score
            (get_user_progress (snd (submit_quiz (snd (submit_quiz self m l a1 u)) m l a2 u)) u)
           = q_score r2)
    \<and> (a1 = map correct (lesson_quiz ls) \<longrightarrow> q_score r1 = 100 \<and> passed r1)
    \<and> ((\<forall>i<length (lesson_quiz ls). a2 ! i \<noteq> correct (lesson_quiz ls ! i))
          \<longrightarrow> q_score r2 = 0 \<and> \<not> passed r2)"
proof -
  note ok = catalog_lesson_facts(1)[OF assms(1,2)]
  note ne = catalog_lesson_facts(2)[OF assms(1,2)]
  let ?qz = "lesson_quiz ls"
  let ?k = "progress_key m l"
  let ?up = "user_progress self"
  define sc1 where "sc1 = (if ?qz \<noteq> [] then (real (count_correct a1 ?qz) / real (length ?qz)) * 100 else 0)"
  define sc2 where "sc2 = (if ?qz \<noteq> [] then (real (count_correct a2 ?qz) / real (length ?qz)) * 100 else 0)"
  define r1 where "r1 = \<lparr>q_score = sc1, q_correct = count_correct a1 ?qz, q_total = length ?qz,
      q_results = map graded_entry (zip a1 ?qz), passed = (sc1 \<ge> 70)\<rparr>"
  define r2 where "r2 = \<lparr>q_score = sc2, q_correct = count_correct a2 ?qz, q_total = length ?qz,
      q_results = map graded_entry (zip a2 ?qz), passed = (sc2 \<ge> 70)\<rparr>"
  define s1 where "s1 = self\<lparr>user_progress := record_attempt ?up u ?k \<lparr>score = sc1, completed = True\<rparr>\<rparr>"
  define s2 where "s2 = self\<lparr>user_progress := record_attempt ?up u ?k \<lparr>score = sc2, completed = True\<rparr>\<rparr>"
  define newp where "newp = AList.update ?k \<lparr>score = sc2, completed = True\<rparr> (progress_of self u)"
  have first: "submit_quiz self m l a1 u = (Inr (QuizResult r1), s1)"
    using submit_quiz_graded[OF assms(2) ok assms(3), of u]
    by (simp add: Let_def r1_def s1_def sc1_def)
  have only2: "submit_quiz self m l a2 u = (Inr (QuizResult r2), s2)"
    using submit_quiz_graded[OF assms(2) ok assms(4), of u]
    by (simp add: Let_def r2_def sc2_def s2_def)
  have g1: "get_lesson s1 m l = Some ls"
    using assms(2) by (simp add: s1_def get_lesson_user_progress_update)
  have second: "submit_quiz s1 m l a2 u = (Inr (QuizResult r2), s2)"
    using submit_quiz_graded[OF g1 ok assms(4), of u]
    by (simp add: Let_def r2_def sc2_def s1_def s2_def record_attempt_twice)
  have ok2: "progress_ok (user_progress s2)"
    unfolding s2_def using progress_ok_record_attempt[OF assms(5)] by simp
  have st1: "stored_attempts s1 u m l = [\<lparr>score = sc1, completed = True\<rparr>]"
    unfolding s1_def by (rule stored_after_record[OF assms(5)])
  have st2: "stored_attempts s2 u m l = [\<lparr>score = sc2, completed = True\<rparr>]"
    unfolding s2_def by (rule stored_after_record[OF assms(5)])
  have p2: "progress_of s2 u = newp"
    by (simp add: s2_def newp_def progress_of_def map_of_record_attempt)
  have p1: "length (progress_of s1 u) = length newp"
    by (simp add: s1_def newp_def progress_of_def map_of_record_attempt AList.update_keys
        flip: length_map[of fst])
  have nn: "newp \<noteq> []" by (simp add: newp_def)
  have det: "lesson_details (get_user_progress s2 u) = newp"
    by (simp add: report_of_progress p2)
  have look: "map_of (lesson_details (get_user_progress s2 u)) ?k
      = Some \<lparr>score = sc2, completed = True\<rparr>"
    by (simp add: det newp_def AList.update_conv')
  have cnt: "completed_lessons (get_user_progress s2 u) = length newp"
    by (simp add: report_of_progress p2)
  have cnt1: "completed_lessons (get_user_progress s2 u)
      = completed_lessons (get_user_progress s1 u)"
    by (simp add: report_of_progress p2 p1)
  have tot: "total_lessons (get_user_progress s2 u) = 6"
    by (rule total_lessons_catalog) (simp add: s2_def assms(1))
  have avg: "average_score (get_user_progress s2 u)
      = sum_list (map (\<lambda>(_, p). score p) newp) / real (length newp)"
    using nn by (simp add: report_of_progress p2)
  have fresh: "completed_lessons (get_user_progress s2 u) = 1
      \<and> average_score (get_user_progress s2 u) = sc2" if "progress_of self u = []"
    using that by (simp add: cnt avg newp_def)
  have best: "q_score r1 = 100 \<and> passed r1" if "a1 = map correct ?qz"
    using that ne by (simp add: r1_def sc1_def count_correct_all)
  have worst: "q_score r2 = 0 \<and> \<not> passed r2"
    if "\<forall>i<length ?qz. a2 ! i \<noteq> correct (?qz ! i)"
    using count_correct_none[OF assms(4) that] by (simp add: r2_def sc2_def)
  have q1: "q_score r1 = sc1" and q2: "q_score r2 = sc2" by (simp_all add: r1_def r2_def)
  show ?thesis
    apply (rule exI[of _ r1], rule exI[of _ r2])
    apply (simp only: first second only2 fst_conv snd_conv q1 q2)
    using st1 st2 ok2 det look cnt cnt1 tot avg fresh best worst q1 q2
    unfolding newp_def by (intro conjI impI) simp_all
qed

theorem resubmission_overwrites_witness:
  "modules training_init = initialize_modules
   \<and> progress_ok (user_progress training_init)
   \<and> (\<exists>r1 r2.
      fst (submit_quiz training_init ''gpu_fundamentals'' ''gpu_1'' [1, 2] ''default'')
        = Inr (QuizResult r1)
    \<and> q_score r1 = 100 \<and> passed r1
    \<and> fst (submit_quiz
             (snd (submit_quiz training_init ''gpu_fundamentals'' ''gpu_1'' [1, 2] ''default''))
             ''gpu_fundamentals'' ''gpu_1'' [0, 0] ''default'') = Inr (QuizResult r2)
    \<and> q_score r2 = 0 \<and> \<not> passed r2
    \<and> stored_attempts
         (snd (submit_quiz
             (snd (submit_quiz training_init ''gpu_fundamentals'' ''gpu_1'' [1, 2] ''default''))
             ''gpu_fundamentals'' ''gpu_1'' [0, 0] ''default''))
         ''default'' ''gpu_fundamentals'' ''gpu_1'' = [\<lparr>score = 0, completed = True\<rparr>]
    \<and> snd (submit_quiz
             (snd (submit_quiz training_init ''gpu_fundamentals'' ''gpu_1'' [1, 2] ''default''))
             ''gpu_fundamentals'' ''gpu_1'' [0, 0] ''default'')
        = snd (submit_quiz training_init ''gpu_fundamentals'' ''gpu_1'' [0, 0] ''default'')
    \<and> lesson_details (get_user_progress
         (snd (submit_quiz
             (snd (submit_quiz training_init ''gpu_fundamentals'' ''gpu_1'' [1, 2] ''default''))
             ''gpu_fundamentals'' ''gpu_1'' [0, 0] ''default'')) ''default'')
        = [(''gpu_fundamentals_gpu_1'', \<lparr>score = 0, completed = True\<rparr>)]
    \<and> completed_lessons (get_user_progress
         (snd (submit_quiz
             (snd (submit_quiz training_init ''gpu_fundamentals'' ''gpu_1'' [1, 2] ''default''))
             ''gpu_fundamentals'' ''gpu_1'' [0, 0] ''default'')) ''default'') = 1
    \<and> total_lessons (get_user_progress
         (snd (submit_quiz
             (snd (submit_quiz training_init ''gpu_fundamentals'' ''gpu_1'' [1, 2] ''default''))
             ''gpu_fundamentals'' ''gpu_1'' [0, 0] ''default'')) ''default'') = 6
    \<and> average_score (get_user_progress
         (snd (submit_quiz
             (snd (submit_quiz training_init ''gpu_fundamentals'' ''gpu_1'' [1, 2] ''default''))
             ''gpu_fundamentals'' ''gpu_1'' [0, 0] ''default'')) ''default'') = 0)"
proof -
  let ?ls = "\<lparr>lesson_id = ''gpu_1'', quiz = Some gpu_1_quiz\<rparr>"
  have l1: "length [1, 2 :: int] = length (lesson_quiz ?ls)"
    and l2: "length [0, 0 :: int] = length (lesson_quiz ?ls)"
    by (simp_all add: lesson_quiz_def gpu_1_quiz_def)
  have cat: "modules training_init = initialize_modules"
    by (simp add: training_init_def)
  have ok: "progress_ok (user_progress training_init)"
    by (rule progress_ok_training_init)
  have empty: "progress_of training_init ''default'' = []"
    by (simp add: progress_of_def training_init_def)
  have key: "progress_key ''gpu_fundamentals'' ''gpu_1'' = ''gpu_fundamentals_gpu_1''"
    by (simp add: progress_key_def)
  have allc: "[1, 2] = map correct (lesson_quiz ?ls)"
    by (simp add: lesson_quiz_def gpu_1_quiz_def)
  have allw: "\<forall>i<length (lesson_quiz ?ls). [0, 0] ! i \<noteq> correct (lesson_quiz ?ls ! i)"
    by (simp add: lesson_quiz_def gpu_1_quiz_def less_Suc_eq)
  let ?s1 = "snd (submit_quiz training_init ''gpu_fundamentals'' ''gpu_1'' [1, 2] ''default'')"
  let ?s2 = "snd (submit_quiz ?s1 ''gpu_fundamentals'' ''gpu_1'' [0, 0] ''default'')"
  from resubmission_overwrites[OF cat get_lesson_gpu_1 l1 l2 ok, of "''default''"]
  obtain r1 r2 where
      f1: "fst (submit_quiz training_init ''gpu_fundamentals'' ''gpu_1'' [1, 2] ''default'')
            = Inr (QuizResult r1)"
    and f2: "fst (submit_quiz ?s1 ''gpu_fundamentals'' ''gpu_1'' [0, 0] ''default'')
            = Inr (QuizResult r2)"
    and st: "stored_attempts ?s2 ''default'' ''gpu_fundamentals'' ''gpu_1''
            = [\<lparr>score = q_score r2, completed = True\<rparr>]"
    and same: "?s2 = snd (submit_quiz training_init ''gpu_fundamentals'' ''gpu_1'' [0, 0] ''default'')"
    and det: "lesson_details (get_user_progress ?s2 ''default'')
            = AList.update (progress_key ''gpu_fundamentals'' ''gpu_1'')
                \<lparr>score = q_score r2, completed = True\<rparr> (progress_of training_init ''default'')"
    and tot: "total_lessons (get_user_progress ?s2 ''default'') = 6"
    and fresh: "progress_of training_init ''default'' = [] \<longrightarrow>
          completed_lessons (get_user_progress ?s2 ''default'') = 1
        \<and> average_score (get_user_progress ?s2 ''default'') = q_score r2"
    and best: "[1, 2] = map correct (lesson_quiz ?ls) \<longrightarrow> q_score r1 = 100 \<and> passed r1"
    and worst: "(\<forall>i<length (lesson_quiz ?ls). [0, 0] ! i \<noteq> correct (lesson_quiz ?ls ! i))
          \<longrightarrow> q_score r2 = 0 \<and> \<not> passed r2"
    by blast
  from best allc have b: "q_score r1 = 100" "passed r1" by blast+
  from worst allw have w: "q_score r2 = 0" "\<not> passed r2" by blast+
  from st w have st0: "stored_attempts ?s2 ''default'' ''gpu_fundamentals'' ''gpu_1''
            = [\<lparr>score = 0, completed = True\<rparr>]" by simp
  from det w have det0: "lesson_details (get_user_progress ?s2 ''default'')
            = [(''gpu_fundamentals_gpu_1'', \<lparr>score = 0, completed = True\<rparr>)]"
    by (simp add: empty key)
  from fresh empty w have fr: "completed_lessons (get_user_progress ?s2 ''default'') = 1"
    "average_score (get_user_progress ?s2 ''default'') = 0" by simp_all
  have "\<exists>r1 r2.
      fst (submit_quiz training_init ''gpu_fundamentals'' ''gpu_1'' [1, 2] ''default'')
        = Inr (QuizResult r1)
    \<and> q_score r1 = 100 \<and> passed r1
    \<and> fst (submit_quiz ?s1 ''gpu_fundamentals'' ''gpu_1'' [0, 0] ''default'') = Inr (QuizResult r2)
    \<and> q_score r2 = 0 \<and> \<not> passed r2
    \<and> stored_attempts ?s2 ''default'' ''gpu_fundamentals'' ''gpu_1''
        = [\<lparr>score = 0, completed = True\<rparr>]
    \<and> ?s2 = snd (submit_quiz training_init ''gpu_fundamentals'' ''gpu_1'' [0, 0] ''default'')
    \<and> lesson_details (get_user_progress ?s2 ''default'')
        = [(''gpu_fundamentals_gpu_1'', \<lparr>score = 0, completed = True\<rparr>)]
    \<and> completed_lessons (get_user_progress ?s2 ''default'') = 1
    \<and> total_lessons (get_user_progress ?s2 ''default'') = 6
    \<and> average_score (get_user_progress ?s2 ''default'') = 0"
    using f1 f2 b w st0 same det0 fr tot by blast
  with cat ok show ?thesis by blast
qed

section \<open>Verification: financial calculator\<close>











section \<open>Verification: intent classifier and chat\<close>






text \<open>
  Claim C9. \<open>chat\<close> takes the context argument and never reads it: for one service and one
  message, any two contexts, absent or present, give the same result.
\<close>

theorem chat_ignores_context:
  "chat self message context1 = chat self message context2"
  by (simp add: chat_def)

theorem chat_ignores_context_witness:
  "chat (ai_agent_init [] ''gpt-4'') ''NVDA stock price'' None
     = chat (ai_agent_init [] ''gpt-4'') ''NVDA stock price''
         (Some [[(''role'', ''user''), (''content'', ''What does an H100 cost?'')]])
   \<and> map_sum id intent (chat (ai_agent_init [] ''gpt-4'') ''NVDA stock price'' None)
     = Inr ''market_data''"
proof -
  have i: "analyze_intent ''NVDA stock price'' = ''market_data''" by code_simp
  have "map_sum id intent (chat (ai_agent_init [] ''gpt-4'') ''NVDA stock price'' None)
     = Inr ''market_data''"
    by (simp add: chat_def i handle_market_query_def)
  with chat_ignores_context[of "ai_agent_init [] ''gpt-4''" "''NVDA stock price''" None
      "Some [[(''role'', ''user''), (''content'', ''What does an H100 cost?'')]]"]
  show ?thesis by simp
qed

section \<open>Verification: market data service\<close>

lemma reference_loop_no_connection_error:
  "reference_loop fuel events k flds results \<noteq> Some (Inl (ConnectionError msg))"
  by (induction fuel arbitrary: k results) (auto simp: Let_def split: sum.splits)

lemma historical_loop_no_connection_error:
  "historical_loop fuel events k flds results \<noteq> Some (Inl (ConnectionError msg))"
  by (induction fuel arbitrary: k results) (auto simp: Let_def split: sum.splits)

lemma mock_walk_no_connection_error:
  "mock_walk env flds current end_day st \<noteq> Inl (ConnectionError msg)"
proof (induction env flds current end_day st rule: mock_walk.induct)
  case (1 env flds current end_day st)
  show ?case
  proof (cases "current \<le> end_day \<and> \<not> current + 1 > 3652059")
    case True
    then have "mock_walk env flds (current + 1) end_day
        (case st of (base_price, ku, ki, results) \<Rightarrow>
           mock_day env flds current base_price ku ki results) \<noteq> Inl (ConnectionError msg)"
      using "1.IH" by simp
    then show ?thesis
      using True by (subst mock_walk.simps) (simp add: Let_def del: mock_walk.simps)
  next
    case False
    then show ?thesis
      by (subst mock_walk.simps) (auto simp add: Let_def simp del: mock_walk.simps)
  qed
qed

lemma get_mock_historical_data_no_connection_error:
  "get_mock_historical_data env security flds start_date end_date \<noteq> Inl (ConnectionError msg)"
  by (simp add: get_mock_historical_data_def mock_walk_no_connection_error
      split: sum.splits del: mock_walk.simps)

text \<open>
  Claim C8. While the service is disconnected (\<open>is_connected\<close> is false),
  \<open>get_reference_data\<close> and \<open>get_historical_data\<close> both raise the connection error
  \<open>Not connected to Bloomberg\<close>, whatever else holds. While it is connected neither of them
  raises a connection error: not the mock paths, and not the live paths, whose only
  exceptions are those of the feed library. Without the library a connected
  \<open>get_reference_data\<close> always returns a result, and a connected \<open>get_historical_data\<close>
  always returns or raises.
\<close>

theorem not_connected_guard:
  "(\<not> is_connected self \<longrightarrow>
       get_reference_data lib fuel self securities flds
         = Some (Inl (ConnectionError ''Not connected to Bloomberg''))
     \<and> get_historical_data lib env fuel self security flds start_date end_date
         = Some (Inl (ConnectionError ''Not connected to Bloomberg'')))
   \<and> (is_connected self \<longrightarrow>
       (\<forall>msg. get_reference_data lib fuel self securities flds
                \<noteq> Some (Inl (ConnectionError msg)))
     \<and> (\<forall>msg. get_historical_data lib env fuel self security flds start_date end_date
                \<noteq> Some (Inl (ConnectionError msg)))
     \<and> (\<not> blpapi_available self \<longrightarrow>
           (\<exists>r. get_reference_data lib fuel self securities flds = Some (Inr r))
         \<and> (\<exists>r. get_historical_data lib env fuel self security flds start_date end_date
                  = Some r)))"
proof (intro conjI impI allI)
  assume "\<not> is_connected self"
  then show "get_reference_data lib fuel self securities flds
         = Some (Inl (ConnectionError ''Not connected to Bloomberg''))"
    and "get_historical_data lib env fuel self security flds start_date end_date
         = Some (Inl (ConnectionError ''Not connected to Bloomberg''))"
    by (simp_all add: is_connected_def get_reference_data_def get_historical_data_def)
next
  fix msg
  assume c: "is_connected self"
  show "get_reference_data lib fuel self securities flds \<noteq> Some (Inl (ConnectionError msg))"
    using c reference_loop_no_connection_error
    by (auto simp: is_connected_def get_reference_data_def split: sum.splits)
next
  fix msg
  assume c: "is_connected self"
  show "get_historical_data lib env fuel self security flds start_date end_date
          \<noteq> Some (Inl (ConnectionError msg))"
    using c historical_loop_no_connection_error get_mock_historical_data_no_connection_error
    by (auto simp: is_connected_def get_historical_data_def split: sum.splits)
next
  assume "is_connected self" and "\<not> blpapi_available self"
  then show "\<exists>r. get_reference_data lib fuel self securities flds = Some (Inr r)"
    and "\<exists>r. get_historical_data lib env fuel self security flds start_date end_date = Some r"
    by (simp_all add: is_connected_def get_reference_data_def get_historical_data_def)
qed

theorem not_connected_guard_witness:
  "(let lib = \<lparr>new_session = (\<lambda>h p. Inl ''no terminal''), session_start = Inr False,
               open_service = (\<lambda>n. Inr False), session_stop = Inr (),
               send_reference_request = (\<lambda>ss fs. Inl ''no session''),
               reference_events = (\<lambda>ss fs k. Inl ''no session''),
               send_historical_request = (\<lambda>sec fs a b. Inl ''no session''),
               historical_events = (\<lambda>sec fs a b k. Inl ''no session'')\<rparr>;
        env = \<lparr>strptime = (\<lambda>d. Inl ''bad date''), strftime = (\<lambda>d. []),
               uniform_draw = (\<lambda>k. 0), randint_draw = (\<lambda>k. 1000000)\<rparr>;
        s0 = bloomberg_init ''localhost'' 8194 False;
        s1 = snd (connect lib s0)
    in \<not> is_connected s0
       \<and> get_reference_data lib 0 s0 [''NVDA US Equity''] [''PX_LAST'']
           = Some (Inl (ConnectionError ''Not connected to Bloomberg''))
       \<and> get_historical_data lib env 0 s0 ''NVDA US Equity'' [''PX_LAST''] ''20240101'' ''20240105''
           = Some (Inl (ConnectionError ''Not connected to Bloomberg''))
       \<and> is_connected s1
       \<and> get_reference_data lib 0 s1 [''NVDA US Equity'', ''XXXX US Equity''] [''PX_LAST'', ''NAME'']
           = Some (Inr [(''NVDA US Equity'', [(''PX_LAST'', ''875.28''), (''NAME'', ''NVIDIA Corp'')])])
       \<and> get_historical_data lib env 0 s1 ''NVDA US Equity'' [''PX_LAST''] ''20240101'' ''20240105''
           \<noteq> Some (Inl (ConnectionError ''Not connected to Bloomberg'')))"
proof -
  define lib where "lib = \<lparr>new_session = (\<lambda>(h :: string) (p :: int). (Inl ''no terminal'' :: string + unit)),
               session_start = (Inr False :: string + bool),
               open_service = (\<lambda>n :: string. (Inr False :: string + bool)),
               session_stop = (Inr () :: string + unit),
               send_reference_request = (\<lambda>(ss :: string list) (fs :: string list). (Inl ''no session'' :: string + unit)),
               reference_events = (\<lambda>(ss :: string list) (fs :: string list) (k :: nat). (Inl ''no session'' :: string + ref_event)),
               send_historical_request = (\<lambda>(sec :: string) (fs :: string list) (a :: string) (b :: string). (Inl ''no session'' :: string + unit)),
               historical_events = (\<lambda>(sec :: string) (fs :: string list) (a :: string) (b :: string) (k :: nat). (Inl ''no session'' :: string + hist_event))\<rparr>"
  define env where "env = \<lparr>strptime = (\<lambda>d :: string. (Inl ''bad date'' :: string + int)),
               strftime = (\<lambda>d :: int. ([] :: string)),
               uniform_draw = (\<lambda>k :: nat. 0 :: real), randint_draw = (\<lambda>k :: nat. 1000000 :: int)\<rparr>"
  define s0 where "s0 = bloomberg_init ''localhost'' 8194 False"
  define s1 where "s1 = snd (connect lib s0)"
  have d0: "\<not> is_connected s0"
    by (simp add: s0_def is_connected_def bloomberg_init_def)
  have c1: "is_connected s1"
    by (simp add: s1_def s0_def is_connected_def bloomberg_init_def connect_def)
  have m1: "\<not> blpapi_available s1"
    by (simp add: s1_def s0_def bloomberg_init_def connect_def)
  have k1: "connected s1" using c1 by (simp add: is_connected_def)
  note g0 = not_connected_guard[of s0 lib 0 "[''NVDA US Equity'']" "[''PX_LAST'']" env
      "''NVDA US Equity''" "''20240101''" "''20240105''", THEN conjunct1, rule_format, OF d0]
  note g1 = not_connected_guard[of s1 lib 0 "[''NVDA US Equity'', ''XXXX US Equity'']"
      "[''PX_LAST'']" env "''NVDA US Equity''" "''20240101''" "''20240105''",
      THEN conjunct2, rule_format, OF c1]
  have r1: "get_reference_data lib 0 s1 [''NVDA US Equity'', ''XXXX US Equity''] [''PX_LAST'', ''NAME'']
           = Some (Inr [(''NVDA US Equity'', [(''PX_LAST'', ''875.28''), (''NAME'', ''NVIDIA Corp'')])])"
    using k1 m1 by (simp add: get_reference_data_def get_mock_reference_data_def mock_data_def)
  have h1: "get_historical_data lib env 0 s1 ''NVDA US Equity'' [''PX_LAST''] ''20240101'' ''20240105''
           \<noteq> Some (Inl (ConnectionError ''Not connected to Bloomberg''))"
    using g1 by blast
  from d0 g0 c1 r1 h1 show ?thesis
    unfolding Let_def lib_def[symmetric] env_def[symmetric] s0_def[symmetric] s1_def[symmetric]
    by blast
qed

end
